theory Spec2Isabelle
  imports Main "HOL-Library.Log_Nat"
begin

section \<open>JavaScript values\<close>

subsection \<open>Numbers\<close>

text \<open>
  A JavaScript number is an IEEE-754 binary64 value. \<open>Fin r\<close> is the finite number whose
  exact value is the rational \<open>r\<close>; the two zeros are not told apart (the handlers never
  divide by a computed zero, and \<open>-0\<close> prints, compares and stores like \<open>0\<close>).
\<close>

datatype jsnum = Fin rat | PInf | NInf | NaN

definition pow2 :: "int \<Rightarrow> rat" where
  "pow2 e = (if 0 \<le> e then 2 ^ nat e else 1 / 2 ^ nat (- e))"

text \<open>\<open>ilog2 a\<close> is the binary exponent of a positive rational: \<open>2 ^ e \<le> a < 2 ^ (e + 1)\<close>.\<close>

definition ilog2 :: "rat \<Rightarrow> int" where
  "ilog2 a = (if 1 \<le> a then bitlen \<lfloor>a\<rfloor> - 1 else - bitlen (\<lceil>1 / a\<rceil> - 1))"

definition round_half_even :: "rat \<Rightarrow> int" where
  "round_half_even r =
     (let f = \<lfloor>r\<rfloor>; d = r - of_int f
      in if d < 1 / 2 then f else if 1 / 2 < d then f + 1 else if even f then f else f + 1)"

text \<open>
  Rounding of an exact result to binary64, to nearest with ties to even: 53 significant
  bits, so the result is \<open>n * 2 ^ (e - 52)\<close> for the binary exponent \<open>e\<close> of the
  magnitude, taken from \<open>-1022\<close> on (below that the spacing stays \<open>2 ^ -1074\<close>, the
  subnormal numbers). The result is an infinity when it reaches \<open>2 ^ 1024\<close>: the
  exponent is above \<open>1023\<close>, or it is \<open>1023\<close> and the significand rounds up to
  \<open>2 ^ 53\<close>.
\<close>

definition float_round :: "rat \<Rightarrow> jsnum" where
  "float_round x =
     (if x = 0 then Fin 0
      else let a = \<bar>x\<bar>;
               e = max (ilog2 a) (- 1022);
               n = round_half_even (a * pow2 (52 - e))
           in if 1024 \<le> e \<or> (e = 1023 \<and> 2 ^ 53 \<le> n)
              then (if 0 < x then PInf else NInf)
              else Fin (sgn x * (of_int n * pow2 (e - 52))))"

definition sign_of :: "jsnum \<Rightarrow> rat" where
  "sign_of x = (case x of Fin r \<Rightarrow> sgn r | PInf \<Rightarrow> 1 | NInf \<Rightarrow> - 1 | NaN \<Rightarrow> 0)"

definition inf_of_sign :: "rat \<Rightarrow> jsnum" where
  "inf_of_sign s = (if 0 < s then PInf else if s < 0 then NInf else NaN)"

text \<open>The operator \<open>*\<close> on numbers.\<close>

definition js_mul :: "jsnum \<Rightarrow> jsnum \<Rightarrow> jsnum" where
  "js_mul x y =
     (if x = NaN \<or> y = NaN then NaN
      else case (x, y) of
             (Fin a, Fin b) \<Rightarrow> float_round (a * b)
           | _ \<Rightarrow> inf_of_sign (sign_of x * sign_of y))"

text \<open>
  The operator \<open>/\<close> on numbers. The handlers divide by the literal \<open>100\<close> only; a zero
  divisor is read as \<open>+0\<close>.
\<close>

definition js_div :: "jsnum \<Rightarrow> jsnum \<Rightarrow> jsnum" where
  "js_div x y =
     (if x = NaN \<or> y = NaN then NaN
      else case (x, y) of
             (Fin a, Fin b) \<Rightarrow> (if b = 0 then inf_of_sign a else float_round (a / b))
           | (Fin a, _) \<Rightarrow> Fin 0
           | (_, Fin b) \<Rightarrow> inf_of_sign (sign_of x * (if b < 0 then - 1 else 1))
           | _ \<Rightarrow> NaN)"

definition round_half_away :: "rat \<Rightarrow> int" where
  "round_half_away r = (if 0 \<le> r then \<lfloor>r + 1 / 2\<rfloor> else - \<lfloor>- r + 1 / 2\<rfloor>)"

text \<open>
  \<open>Number(x.toFixed(2))\<close>. For a finite \<open>x\<close> below \<open>10 ^ 21\<close> in magnitude, \<open>toFixed(2)\<close>
  prints \<open>n / 100\<close> for the integer \<open>n\<close> with \<open>n / 100\<close> nearest to the exact value of
  \<open>x\<close>, the larger \<open>n\<close> of two (taken on the magnitude); \<open>Number\<close> reads the decimal back
  as the nearest binary64 value. Any other \<open>x\<close> prints as \<open>String(x)\<close> and reads back
  as itself.
\<close>

definition toFixed2 :: "jsnum \<Rightarrow> jsnum" where
  "toFixed2 x =
     (case x of
        Fin r \<Rightarrow>
          (if \<bar>r\<bar> < 10 ^ 21 then float_round (of_int (round_half_away (r * 100)) / 100)
           else Fin r)
      | _ \<Rightarrow> x)"

definition isFinite :: "jsnum \<Rightarrow> bool" where
  "isFinite x = (case x of Fin r \<Rightarrow> True | _ \<Rightarrow> False)"

text \<open>The comparison \<open>x > y\<close> on numbers: false as soon as one side is \<open>NaN\<close>.\<close>

definition js_gt :: "jsnum \<Rightarrow> jsnum \<Rightarrow> bool" where
  "js_gt x y =
     (case (x, y) of
        (Fin a, Fin b) \<Rightarrow> b < a
      | (Fin a, NInf) \<Rightarrow> True
      | (PInf, Fin b) \<Rightarrow> True
      | (PInf, NInf) \<Rightarrow> True
      | _ \<Rightarrow> False)"

subsection \<open>Parsed JSON and the coercions the handlers apply to it\<close>

datatype json =
    JNull
  | JBool bool
  | JNum jsnum
  | JStr string
  | JArr "json list"
  | JObj "(string \<times> json) list"

text \<open>
  A JavaScript value read from the payload is \<open>Some v\<close> for a JSON value and \<open>None\<close> for
  \<open>undefined\<close>. Strings are the UTF-8 bytes of the JavaScript string.
\<close>

type_synonym jsval = "json option"

datatype js_error = RangeError | SyntaxError | TypeError | StorageError

text \<open>
  What the hosting runtime provides and the repository does not define: the keyed hash
  (\<open>crypto.createHmac("sha256", key).update(body).digest("base64")\<close>), \<open>JSON.parse\<close> on
  the body (\<open>None\<close> when it throws a \<open>SyntaxError\<close>; an object lists each key once), and
  the conversions between strings and numbers.
\<close>

record platform =
  hmac_sha256_base64 :: "string \<Rightarrow> string \<Rightarrow> string"
  JSON_parse :: "string \<Rightarrow> json option"
  StringToNumber :: "string \<Rightarrow> jsnum"
  NumberToString :: "jsnum \<Rightarrow> string"

text \<open>Optional property access \<open>v?.k\<close>, for the keys the handlers read.\<close>

fun getProp :: "jsval \<Rightarrow> string \<Rightarrow> jsval" where
  "getProp (Some (JObj kvs)) k = map_of kvs k"
| "getProp v k = None"

fun truthy :: "jsval \<Rightarrow> bool" where
  "truthy None = False"
| "truthy (Some JNull) = False"
| "truthy (Some (JBool b)) = b"
| "truthy (Some (JNum n)) = (n \<noteq> NaN \<and> n \<noteq> Fin 0)"
| "truthy (Some (JStr s)) = (s \<noteq> [])"
| "truthy (Some (JArr xs)) = True"
| "truthy (Some (JObj kvs)) = True"

text \<open>The operators \<open>a || b\<close> and \<open>a ?? b\<close>.\<close>

definition js_or :: "jsval \<Rightarrow> jsval \<Rightarrow> jsval" where
  "js_or a b = (if truthy a then a else b)"

definition js_nullish :: "jsval \<Rightarrow> jsval \<Rightarrow> jsval" where
  "js_nullish a b = (if a = None \<or> a = Some JNull then b else a)"

text \<open>
  \<open>String(v)\<close>. An array joins its elements with commas, \<open>null\<close> elements as the empty
  string. A parsed object prints as \<open>[object Object]\<close>, unless it has an own key
  \<open>toString\<close>: its value is never callable, the inherited \<open>valueOf\<close> returns the
  object, and the conversion throws a \<open>TypeError\<close> (\<open>None\<close>).
\<close>

fun toStr :: "(jsnum \<Rightarrow> string) \<Rightarrow> json \<Rightarrow> string option"
  and joinStr :: "(jsnum \<Rightarrow> string) \<Rightarrow> json list \<Rightarrow> string option" where
  "toStr f JNull = Some ''null''"
| "toStr f (JBool b) = Some (if b then ''true'' else ''false'')"
| "toStr f (JNum n) = Some (f n)"
| "toStr f (JStr s) = Some s"
| "toStr f (JArr xs) = joinStr f xs"
| "toStr f (JObj kvs) =
     (if map_of kvs ''toString'' = None then Some ''[object Object]'' else None)"
| "joinStr f [] = Some []"
| "joinStr f (x # xs) =
     (case (if x = JNull then Some [] else toStr f x) of
        None \<Rightarrow> None
      | Some a \<Rightarrow>
          (if xs = [] then Some a
           else case joinStr f xs of None \<Rightarrow> None | Some b \<Rightarrow> Some (a @ '','' @ b)))"

definition js_String :: "platform \<Rightarrow> jsval \<Rightarrow> string option" where
  "js_String P v =
     (case v of None \<Rightarrow> Some ''undefined'' | Some j \<Rightarrow> toStr (NumberToString P) j)"

text \<open>\<open>Number(v)\<close>: arrays and objects convert through their string.\<close>

definition js_Number :: "platform \<Rightarrow> jsval \<Rightarrow> jsnum option" where
  "js_Number P v =
     (case v of
        None \<Rightarrow> Some NaN
      | Some JNull \<Rightarrow> Some (Fin 0)
      | Some (JBool b) \<Rightarrow> Some (Fin (if b then 1 else 0))
      | Some (JNum n) \<Rightarrow> Some n
      | Some (JStr s) \<Rightarrow> Some (StringToNumber P s)
      | Some j \<Rightarrow> map_option (StringToNumber P) (toStr (NumberToString P) j))"

subsection \<open>Strings\<close>

text \<open>\<open>s.toLowerCase()\<close>, on the ASCII letters (header values and host names are ASCII).\<close>

definition lower_char :: "char \<Rightarrow> char" where
  "lower_char c =
     (case map_of (zip ''ABCDEFGHIJKLMNOPQRSTUVWXYZ'' ''abcdefghijklmnopqrstuvwxyz'') c of
        None \<Rightarrow> c
      | Some d \<Rightarrow> d)"

definition toLowerCase :: "string \<Rightarrow> string" where
  "toLowerCase s = map lower_char s"

text \<open>\<open>s.includes(t)\<close>: \<open>t\<close> occurs in \<open>s\<close> as a contiguous run.\<close>

fun str_includes :: "string \<Rightarrow> string \<Rightarrow> bool" where
  "str_includes [] t = (t = [])"
| "str_includes (c # s) t = (take (length t) (c # s) = t \<or> str_includes s t)"

text \<open>
  \<open>crypto.timingSafeEqual(A, B)\<close> on two buffers: it throws a \<open>RangeError\<close> when the byte
  lengths differ, and compares the contents otherwise.
\<close>

definition timingSafeEqual :: "string \<Rightarrow> string \<Rightarrow> js_error + bool" where
  "timingSafeEqual A B = (if length A \<noteq> length B then Inl RangeError else Inr (A = B))"

section \<open>Configuration, requests and the store\<close>

text \<open>The three environment variables, each set or unset.\<close>

record environment =
  env_SHOPIFY_WEBHOOK_SECRET :: "string option"
  env_ALLOWED_SHOPIFY_DOMAIN :: "string option"
  env_LSC_CASHBACK_PERCENT :: "string option"

record config =
  SHOPIFY_WEBHOOK_SECRET :: string
  ALLOWED_SHOPIFY_DOMAIN :: string
  LSC_CASHBACK_PERCENT :: jsnum

text \<open>
  The module constants of both files (lines 5 to 7): \<open>process.env.X || ""\<close> is the empty
  string for an unset or empty variable, and \<open>Number(process.env.X || 5)\<close> is \<open>5\<close> then.
\<close>

definition load_config :: "platform \<Rightarrow> environment \<Rightarrow> config" where
  "load_config P e =
     \<lparr> SHOPIFY_WEBHOOK_SECRET =
         (case env_SHOPIFY_WEBHOOK_SECRET e of None \<Rightarrow> [] | Some s \<Rightarrow> s),
       ALLOWED_SHOPIFY_DOMAIN =
         toLowerCase (case env_ALLOWED_SHOPIFY_DOMAIN e of None \<Rightarrow> [] | Some s \<Rightarrow> s),
       LSC_CASHBACK_PERCENT =
         (case env_LSC_CASHBACK_PERCENT e of
            None \<Rightarrow> Fin 5
          | Some s \<Rightarrow> if s = [] then Fin 5 else StringToNumber P s) \<rparr>"

record request =
  req_method :: string
  headers :: "string \<rightharpoonup> string"
  req_body :: string

text \<open>
  One row of \<open>lsc_cashback_events\<close>. \<open>customer_email\<close> and \<open>currency\<close> hold the value the
  handler passes to the statement (\<open>JNull\<close> is SQL \<open>NULL\<close>).
\<close>

record cashback_event =
  order_id :: string
  created_at :: nat
  shop_domain :: string
  customer_email :: json
  currency :: json
  total_paid :: jsnum
  cashback_percent :: jsnum
  cashback_amount :: jsnum
  raw :: json

datatype log_line = LogError string | LogInfo string

text \<open>
  The state a delivery runs in: the module variable \<open>tableReady\<close>, the rows of the table
  and the lines written to the console.
\<close>

record server =
  tableReady :: bool
  lsc_cashback_events :: "cashback_event list"
  console :: "log_line list"

text \<open>
  What the handler cannot decide: whether a statement sent to the database fails (while
  the table is provisioned, or on the insert), and the time \<open>NOW()\<close> of the insert.
\<close>

datatype storage_fault = NoFault | EnsureTableFails | InsertFails

record delivery =
  fault :: storage_fault
  now :: nat

datatype body =
    Text string
  | ErrorJson string
  | SkippedJson string
  | SavedJson string jsnum

datatype response = Response (status: nat) (body: body)

text \<open>
  \<open>ensureTable\<close> (line 10 in both files): nothing is sent once \<open>tableReady\<close> is set; the
  flag is set only after every provisioning statement has succeeded.
\<close>

definition ensureTable :: "delivery \<Rightarrow> server \<Rightarrow> js_error + server" where
  "ensureTable d s =
     (if tableReady s then Inr s
      else if fault d = EnsureTableFails then Inl StorageError
      else Inr (s\<lparr>tableReady := True\<rparr>))"

text \<open>
  \<open>INSERT ... ON CONFLICT (order_id) DO UPDATE SET ...\<close> (src/api/shopify-orders-paid.js,
  lines 112 to 128): every column but \<open>order_id\<close> and \<open>created_at\<close> is overwritten in the
  row that has the key; without such a row, the new row is added.
\<close>

definition insert_do_update :: "cashback_event \<Rightarrow> cashback_event list \<Rightarrow> cashback_event list" where
  "insert_do_update new rows =
     (if order_id new \<in> set (map order_id rows)
      then map (\<lambda>r. if order_id r = order_id new then new\<lparr>created_at := created_at r\<rparr> else r) rows
      else rows @ [new])"

text \<open>\<open>INSERT ... ON CONFLICT (order_id) DO NOTHING\<close> (src/unnamed/part_000, lines 79 to 87).\<close>

definition insert_do_nothing :: "cashback_event \<Rightarrow> cashback_event list \<Rightarrow> cashback_event list" where
  "insert_do_nothing new rows =
     (if order_id new \<in> set (map order_id rows) then rows else rows @ [new])"

definition sql_insert ::
  "(cashback_event \<Rightarrow> cashback_event list \<Rightarrow> cashback_event list) \<Rightarrow>
   delivery \<Rightarrow> cashback_event \<Rightarrow> server \<Rightarrow> js_error + server" where
  "sql_insert stmt d new s =
     (if fault d = InsertFails then Inl StorageError
      else Inr (s\<lparr>lsc_cashback_events := stmt new (lsc_cashback_events s)\<rparr>))"

definition log :: "log_line \<Rightarrow> server \<Rightarrow> server" where
  "log l s = s\<lparr>console := console s @ [l]\<rparr>"

text \<open>A header read as \<open>req.headers[name] || ""\<close>.\<close>

definition header_or_empty :: "request \<Rightarrow> string \<Rightarrow> string" where
  "header_or_empty req name = (case headers req name of None \<Rightarrow> [] | Some v \<Rightarrow> v)"

section \<open>The cashback calculation (both files)\<close>

text \<open>
  \<open>Number.isFinite(LSC_CASHBACK_PERCENT) ? LSC_CASHBACK_PERCENT : 5\<close>, and
  \<open>Number((totalPaid * (cashbackPercent / 100)).toFixed(2))\<close>.
\<close>

definition cashbackPercent :: "config \<Rightarrow> jsnum" where
  "cashbackPercent cfg =
     (if isFinite (LSC_CASHBACK_PERCENT cfg) then LSC_CASHBACK_PERCENT cfg else Fin 5)"

definition cashbackAmount :: "jsnum \<Rightarrow> jsnum \<Rightarrow> jsnum" where
  "cashbackAmount totalPaid pct = toFixed2 (js_mul totalPaid (js_div pct (Fin 100)))"

section \<open>The handler of src/api/shopify-orders-paid.js\<close>

text \<open>\<open>verifyShopifyHmac\<close> (lines 47 to 54); the header is read as \<open>hmacHeader || ""\<close>.\<close>

definition verifyShopifyHmac :: "platform \<Rightarrow> config \<Rightarrow> string \<Rightarrow> string option \<Rightarrow> js_error + bool" where
  "verifyShopifyHmac P cfg rawBody hmacHeader =
     (if SHOPIFY_WEBHOOK_SECRET cfg = [] then Inr False
      else let digest = hmac_sha256_base64 P (SHOPIFY_WEBHOOK_SECRET cfg) rawBody
           in timingSafeEqual digest (case hmacHeader of None \<Rightarrow> [] | Some h \<Rightarrow> h))"

text \<open>Lines 93 to 104: the values extracted from the payload, with their fallbacks.\<close>

definition orderId_api :: "platform \<Rightarrow> json \<Rightarrow> string option" where
  "orderId_api P payload =
     js_String P
       (js_nullish (js_nullish (getProp (Some payload) ''id'') (getProp (Some payload) ''order_id''))
          (Some (JStr [])))"

definition customerEmail_api :: "json \<Rightarrow> json" where
  "customerEmail_api payload =
     (case js_or
             (js_or
                (js_or (getProp (Some payload) ''email'')
                   (getProp (getProp (Some payload) ''customer'') ''email''))
                (getProp (getProp (getProp (Some payload) ''customer'') ''default_address'') ''email''))
             (Some JNull) of
        None \<Rightarrow> JNull
      | Some v \<Rightarrow> v)"

definition currency_api :: "json \<Rightarrow> json" where
  "currency_api payload =
     (case js_or
             (js_or (getProp (Some payload) ''currency'')
                (getProp (Some payload) ''presentment_currency''))
             (Some (JStr ''USD'')) of
        None \<Rightarrow> JNull
      | Some v \<Rightarrow> v)"

definition totalPaid_api :: "platform \<Rightarrow> json \<Rightarrow> jsnum option" where
  "totalPaid_api P payload =
     js_Number P
       (js_or
          (js_or
             (js_or (getProp (Some payload) ''total_price'')
                (getProp (Some payload) ''current_total_price''))
             (getProp (getProp (getProp (Some payload) ''total_price_set'') ''shop_money'') ''amount''))
          (Some (JStr ''0'')))"

text \<open>
  The body of the \<open>try\<close> block (lines 68 to 136). \<open>Inl\<close> is an exception, with the state
  at the point where it is thrown.
\<close>

definition handler_api_try ::
  "platform \<Rightarrow> config \<Rightarrow> delivery \<Rightarrow> request \<Rightarrow> server \<Rightarrow> (js_error + response) \<times> server" where
  "handler_api_try P cfg d req s =
     (let hmacHeader = headers req ''x-shopify-hmac-sha256'';
          topic = headers req ''x-shopify-topic'';
          shopDomain = toLowerCase (header_or_empty req ''x-shopify-shop-domain'')
      in if ALLOWED_SHOPIFY_DOMAIN cfg \<noteq> [] \<and> shopDomain \<noteq> ALLOWED_SHOPIFY_DOMAIN cfg
         then (Inr (Response 401 (ErrorJson ''Unauthorized shop domain'')), s)
         else (case verifyShopifyHmac P cfg (req_body req) hmacHeader of
           Inl err \<Rightarrow> (Inl err, s)
         | Inr valid \<Rightarrow>
            (if \<not> valid then (Inr (Response 401 (ErrorJson ''Invalid HMAC'')), s)
             else (case JSON_parse P (req_body req) of
               None \<Rightarrow> (Inl SyntaxError, s)
             | Some payload \<Rightarrow>
                (if (case topic of
                       None \<Rightarrow> True
                     | Some t \<Rightarrow>
                         (t = [] \<or> (\<not> str_includes t ''orders/paid'' \<and> \<not> str_includes t ''order'')))
                 then (Inr (Response 200 (SkippedJson ''Not an orders/paid topic'')), s)
                 else (case orderId_api P payload of
                   None \<Rightarrow> (Inl TypeError, s)
                 | Some orderId \<Rightarrow>
                     (case totalPaid_api P payload of
                        None \<Rightarrow> (Inl TypeError, s)
                      | Some totalPaid \<Rightarrow>
                         (let pct = cashbackPercent cfg;
                              amount = cashbackAmount totalPaid pct
                          in (case ensureTable d s of
                               Inl err \<Rightarrow> (Inl err, s)
                             | Inr s1 \<Rightarrow>
                                 (case sql_insert insert_do_update d
                                         \<lparr> order_id = orderId, created_at = now d,
                                           shop_domain = shopDomain,
                                           customer_email = customerEmail_api payload,
                                           currency = currency_api payload,
                                           total_paid = totalPaid, cashback_percent = pct,
                                           cashback_amount = amount, raw = payload \<rparr> s1 of
                                    Inl err \<Rightarrow> (Inl err, s1)
                                  | Inr s2 \<Rightarrow>
                                      (Inr (Response 200 (SavedJson orderId amount)),
                                       log (LogInfo ''Cashback saved:'') s2)))))))))))"

text \<open>
  \<open>handler\<close> (lines 62 to 141): the method check, then the \<open>try\<close> block, whose \<open>catch\<close>
  logs the error and answers 200.
\<close>

definition handler_api ::
  "platform \<Rightarrow> config \<Rightarrow> delivery \<Rightarrow> request \<Rightarrow> server \<Rightarrow> (js_error + response) \<times> server" where
  "handler_api P cfg d req s =
     (if req_method req \<noteq> ''POST''
      then (Inr (Response 405 (ErrorJson ''Method Not Allowed'')), s)
      else case handler_api_try P cfg d req s of
             (Inl err, s') \<Rightarrow>
               (Inr (Response 200 (ErrorJson ''Logged server error'')),
                log (LogError ''Webhook error:'') s')
           | (Inr r, s') \<Rightarrow> (Inr r, s'))"

section \<open>The handler of src/unnamed/part_000\<close>

text \<open>\<open>timingSafeEqualStr\<close> (lines 36 to 41).\<close>

definition timingSafeEqualStr :: "string \<Rightarrow> string \<Rightarrow> js_error + bool" where
  "timingSafeEqualStr a b = (if length a \<noteq> length b then Inr False else timingSafeEqual a b)"

text \<open>
  Lines 66 to 71. \<open>payload.id\<close> is read without \<open>?.\<close>: on the payload \<open>null\<close> it throws a
  \<open>TypeError\<close>.
\<close>

definition orderId_part000 :: "platform \<Rightarrow> json \<Rightarrow> string option" where
  "orderId_part000 P payload =
     (if payload = JNull then None
      else js_String P (js_or (getProp (Some payload) ''id'') (Some (JStr []))))"

definition customerEmail_part000 :: "json \<Rightarrow> json" where
  "customerEmail_part000 payload =
     (case js_or
             (js_or (getProp (Some payload) ''email'')
                (getProp (getProp (Some payload) ''customer'') ''email''))
             (Some JNull) of
        None \<Rightarrow> JNull
      | Some v \<Rightarrow> v)"

definition currency_part000 :: "json \<Rightarrow> json" where
  "currency_part000 payload =
     (case js_or
             (js_or
                (js_or
                   (getProp (getProp (getProp (Some payload) ''total_price_set'') ''shop_money'')
                      ''currency_code'')
                   (getProp (Some payload) ''currency''))
                (getProp (Some payload) ''presentment_currency''))
             (Some (JStr ''USD'')) of
        None \<Rightarrow> JNull
      | Some v \<Rightarrow> v)"

definition totalPaid_part000 :: "platform \<Rightarrow> json \<Rightarrow> jsnum option" where
  "totalPaid_part000 P payload =
     js_Number P
       (js_nullish
          (js_nullish
             (getProp (getProp (getProp (Some payload) ''total_price_set'') ''shop_money'') ''amount'')
             (getProp (Some payload) ''total_price''))
          (Some (JNum (Fin 0))))"

text \<open>
  Lines 77 to 90: the \<open>try\<close> block around \<open>ensureTable\<close> and the insert, whose \<open>catch\<close>
  logs the error.
\<close>

definition record_part000 :: "delivery \<Rightarrow> cashback_event \<Rightarrow> server \<Rightarrow> server" where
  "record_part000 d new s =
     (case ensureTable d s of
        Inl err \<Rightarrow> log (LogError ''DB insert error:'') s
      | Inr s1 \<Rightarrow>
          (case sql_insert insert_do_nothing d new s1 of
             Inl err \<Rightarrow> log (LogError ''DB insert error:'') s1
           | Inr s2 \<Rightarrow> s2))"

text \<open>
  \<open>handler\<close> (lines 43 to 94). \<open>Inl\<close> is an exception that leaves the handler: nothing
  outside lines 64 and 77 to 90 is inside a \<open>try\<close>.
\<close>

definition handler_part000 ::
  "platform \<Rightarrow> config \<Rightarrow> delivery \<Rightarrow> request \<Rightarrow> server \<Rightarrow> (js_error + response) \<times> server" where
  "handler_part000 P cfg d req s =
     (if req_method req \<noteq> ''POST'' then (Inr (Response 405 (Text ''Method Not Allowed'')), s)
      else (let raw = req_body req;
               hmac = header_or_empty req ''x-shopify-hmac-sha256'';
               shop = toLowerCase (header_or_empty req ''x-shopify-shop-domain'');
               topic = toLowerCase (header_or_empty req ''x-shopify-topic'')
           in if ALLOWED_SHOPIFY_DOMAIN cfg = [] \<or> shop \<noteq> ALLOWED_SHOPIFY_DOMAIN cfg
              then (Inr (Response 403 (Text ''Forbidden (domain)'')), s)
              else if SHOPIFY_WEBHOOK_SECRET cfg = []
              then (Inr (Response 500 (Text ''Server misconfigured (secret)'')), s)
              else (case timingSafeEqualStr
                          (hmac_sha256_base64 P (SHOPIFY_WEBHOOK_SECRET cfg) raw) hmac of
                Inl err \<Rightarrow> (Inl err, s)
              | Inr valid \<Rightarrow>
                 (if \<not> valid then (Inr (Response 403 (Text ''Forbidden (hmac)'')), s)
                  else if topic \<noteq> ''orders/paid'' then (Inr (Response 200 (Text ''Ignored topic'')), s)
                  else (case JSON_parse P raw of
                    None \<Rightarrow> (Inr (Response 400 (Text ''Bad JSON'')), s)
                  | Some payload \<Rightarrow>
                      (case orderId_part000 P payload of
                         None \<Rightarrow> (Inl TypeError, s)
                       | Some orderId \<Rightarrow>
                           (case totalPaid_part000 P payload of
                              None \<Rightarrow> (Inl TypeError, s)
                            | Some totalPaid \<Rightarrow>
                               (if orderId = [] \<or> \<not> js_gt totalPaid (Fin 0)
                                then (Inr (Response 200 (Text ''Missing order data'')), s)
                                else (let pct = cashbackPercent cfg;
                                         amount = cashbackAmount totalPaid pct;
                                         s' = record_part000 d
                                                \<lparr> order_id = orderId, created_at = now d,
                                                  shop_domain = shop,
                                                  customer_email = customerEmail_part000 payload,
                                                  currency = currency_part000 payload,
                                                  total_paid = totalPaid, cashback_percent = pct,
                                                  cashback_amount = amount, raw = payload \<rparr> s
                                     in (Inr (Response 200 (Text ''OK'')),
                                         log (LogInfo ''[LSC] orders/paid'') s'))))))))))"

section \<open>Sequences of deliveries\<close>

datatype variant = Api | Part000

definition handler ::
  "variant \<Rightarrow> platform \<Rightarrow> config \<Rightarrow> delivery \<Rightarrow> request \<Rightarrow> server \<Rightarrow> (js_error + response) \<times> server" where
  "handler v = (case v of Api \<Rightarrow> handler_api | Part000 \<Rightarrow> handler_part000)"

text \<open>The store after a sequence of requests, each served by one of the two handlers.\<close>

fun deliver_all ::
  "platform \<Rightarrow> config \<Rightarrow> (variant \<times> delivery \<times> request) list \<Rightarrow> server \<Rightarrow> server" where
  "deliver_all P cfg [] s = s"
| "deliver_all P cfg ((v, d, req) # rest) s =
     deliver_all P cfg rest (snd (handler v P cfg d req s))"

subsection \<open>Deliveries in flight\<close>

text \<open>
  Both handlers are \<open>async\<close> functions, so several deliveries can be in flight at once and
  take turns at every \<open>await\<close> of a database statement. A delivery is at one of four
  points: received; waiting for the provisioning statements of \<open>ensureTable\<close> (it found
  \<open>tableReady\<close> unset); waiting for its \<open>INSERT\<close>; finished, with the response it sent or
  the exception that left the handler. A waiting delivery holds the row it is about to
  write and the response it will send afterwards.
\<close>

datatype in_flight =
    Received variant delivery request
  | Provisioning variant delivery cashback_event response
  | Inserting variant delivery cashback_event response
  | Finished "js_error + response"

text \<open>
  src/api/shopify-orders-paid.js, lines 63 to 107: the handler up to the call of
  \<open>ensureTable\<close>. The result is a response sent or an exception thrown inside the \<open>try\<close>
  (\<open>Inl\<close>), or the row for the insert with the response of line 136 (\<open>Inr\<close>).
\<close>

definition api_front ::
  "platform \<Rightarrow> config \<Rightarrow> delivery \<Rightarrow> request \<Rightarrow> (js_error + response) + cashback_event \<times> response" where
  "api_front P cfg d req =
     (if req_method req \<noteq> ''POST'' then Inl (Inr (Response 405 (ErrorJson ''Method Not Allowed'')))
      else (let hmacHeader = headers req ''x-shopify-hmac-sha256'';
                topic = headers req ''x-shopify-topic'';
                shopDomain = toLowerCase (header_or_empty req ''x-shopify-shop-domain'')
            in if ALLOWED_SHOPIFY_DOMAIN cfg \<noteq> [] \<and> shopDomain \<noteq> ALLOWED_SHOPIFY_DOMAIN cfg
               then Inl (Inr (Response 401 (ErrorJson ''Unauthorized shop domain'')))
               else (case verifyShopifyHmac P cfg (req_body req) hmacHeader of
                 Inl err \<Rightarrow> Inl (Inl err)
               | Inr valid \<Rightarrow>
                  (if \<not> valid then Inl (Inr (Response 401 (ErrorJson ''Invalid HMAC'')))
                   else (case JSON_parse P (req_body req) of
                     None \<Rightarrow> Inl (Inl SyntaxError)
                   | Some payload \<Rightarrow>
                      (if (case topic of
                             None \<Rightarrow> True
                           | Some t \<Rightarrow>
                               (t = [] \<or> (\<not> str_includes t ''orders/paid'' \<and> \<not> str_includes t ''order'')))
                       then Inl (Inr (Response 200 (SkippedJson ''Not an orders/paid topic'')))
                       else (case orderId_api P payload of
                         None \<Rightarrow> Inl (Inl TypeError)
                       | Some orderId \<Rightarrow>
                           (case totalPaid_api P payload of
                              None \<Rightarrow> Inl (Inl TypeError)
                            | Some totalPaid \<Rightarrow>
                               (let pct = cashbackPercent cfg;
                                    amount = cashbackAmount totalPaid pct
                                in Inr (\<lparr> order_id = orderId, created_at = now d,
                                          shop_domain = shopDomain,
                                          customer_email = customerEmail_api payload,
                                          currency = currency_api payload,
                                          total_paid = totalPaid, cashback_percent = pct,
                                          cashback_amount = amount, raw = payload \<rparr>,
                                        Response 200 (SavedJson orderId amount)))))))))))"

text \<open>
  src/unnamed/part_000, lines 44 to 75: the handler up to its \<open>try\<close> block. \<open>Inl\<close> is the
  outcome of a delivery that ends there, \<open>Inr\<close> the row for the insert with the response
  of line 93.
\<close>

definition part000_front ::
  "platform \<Rightarrow> config \<Rightarrow> delivery \<Rightarrow> request \<Rightarrow> (js_error + response) + cashback_event \<times> response" where
  "part000_front P cfg d req =
     (if req_method req \<noteq> ''POST'' then Inl (Inr (Response 405 (Text ''Method Not Allowed'')))
      else (let raw = req_body req;
               hmac = header_or_empty req ''x-shopify-hmac-sha256'';
               shop = toLowerCase (header_or_empty req ''x-shopify-shop-domain'');
               topic = toLowerCase (header_or_empty req ''x-shopify-topic'')
           in if ALLOWED_SHOPIFY_DOMAIN cfg = [] \<or> shop \<noteq> ALLOWED_SHOPIFY_DOMAIN cfg
              then Inl (Inr (Response 403 (Text ''Forbidden (domain)'')))
              else if SHOPIFY_WEBHOOK_SECRET cfg = []
              then Inl (Inr (Response 500 (Text ''Server misconfigured (secret)'')))
              else (case timingSafeEqualStr
                          (hmac_sha256_base64 P (SHOPIFY_WEBHOOK_SECRET cfg) raw) hmac of
                Inl err \<Rightarrow> Inl (Inl err)
              | Inr valid \<Rightarrow>
                 (if \<not> valid then Inl (Inr (Response 403 (Text ''Forbidden (hmac)'')))
                  else if topic \<noteq> ''orders/paid'' then Inl (Inr (Response 200 (Text ''Ignored topic'')))
                  else (case JSON_parse P raw of
                    None \<Rightarrow> Inl (Inr (Response 400 (Text ''Bad JSON'')))
                  | Some payload \<Rightarrow>
                      (case orderId_part000 P payload of
                         None \<Rightarrow> Inl (Inl TypeError)
                       | Some orderId \<Rightarrow>
                           (case totalPaid_part000 P payload of
                              None \<Rightarrow> Inl (Inl TypeError)
                            | Some totalPaid \<Rightarrow>
                               (if orderId = [] \<or> \<not> js_gt totalPaid (Fin 0)
                                then Inl (Inr (Response 200 (Text ''Missing order data'')))
                                else (let pct = cashbackPercent cfg;
                                         amount = cashbackAmount totalPaid pct
                                     in Inr (\<lparr> order_id = orderId, created_at = now d,
                                               shop_domain = shop,
                                               customer_email = customerEmail_part000 payload,
                                               currency = currency_part000 payload,
                                               total_paid = totalPaid, cashback_percent = pct,
                                               cashback_amount = amount, raw = payload \<rparr>,
                                             Response 200 (Text ''OK'')))))))))))"

text \<open>
  A statement fails: the \<open>catch\<close> of lines 137 to 141 (src/api/shopify-orders-paid.js), or
  the \<open>catch\<close> of line 88 followed by lines 92 and 93 (src/unnamed/part_000).
\<close>

definition on_storage_error :: "variant \<Rightarrow> server \<Rightarrow> in_flight \<times> server" where
  "on_storage_error v s =
     (case v of
        Api \<Rightarrow>
          (Finished (Inr (Response 200 (ErrorJson ''Logged server error''))),
           log (LogError ''Webhook error:'') s)
      | Part000 \<Rightarrow>
          (Finished (Inr (Response 200 (Text ''OK''))),
           log (LogInfo ''[LSC] orders/paid'') (log (LogError ''DB insert error:'') s)))"

text \<open>The insert statement of each handler, and the line it logs after the insert.\<close>

definition statement_of :: "variant \<Rightarrow> cashback_event \<Rightarrow> cashback_event list \<Rightarrow> cashback_event list" where
  "statement_of v = (case v of Api \<Rightarrow> insert_do_update | Part000 \<Rightarrow> insert_do_nothing)"

definition saved_line :: "variant \<Rightarrow> log_line" where
  "saved_line v = (case v of Api \<Rightarrow> LogInfo ''Cashback saved:'' | Part000 \<Rightarrow> LogInfo ''[LSC] orders/paid'')"

text \<open>
  One turn of one delivery: the synchronous code up to the first statement it awaits
  (\<open>tableReady\<close> is read here, line 11), the provisioning statements followed by
  \<open>tableReady = true\<close>, or the insert followed by the rest of the handler. The insert is one
  statement, executed by the database on the table as it is at that turn.
\<close>

fun proc_step :: "platform \<Rightarrow> config \<Rightarrow> in_flight \<Rightarrow> server \<Rightarrow> in_flight \<times> server" where
  "proc_step P cfg (Received v d req) s =
     (case v of
        Api \<Rightarrow>
          (case api_front P cfg d req of
             Inl (Inr r) \<Rightarrow> (Finished (Inr r), s)
           | Inl (Inl err) \<Rightarrow>
               (Finished (Inr (Response 200 (ErrorJson ''Logged server error''))),
                log (LogError ''Webhook error:'') s)
           | Inr (new, r) \<Rightarrow>
               (if tableReady s then Inserting Api d new r else Provisioning Api d new r, s))
      | Part000 \<Rightarrow>
          (case part000_front P cfg d req of
             Inl out \<Rightarrow> (Finished out, s)
           | Inr (new, r) \<Rightarrow>
               (if tableReady s then Inserting Part000 d new r else Provisioning Part000 d new r, s)))"
| "proc_step P cfg (Provisioning v d new r) s =
     (if fault d = EnsureTableFails then on_storage_error v s
      else (Inserting v d new r, s\<lparr>tableReady := True\<rparr>))"
| "proc_step P cfg (Inserting v d new r) s =
     (case sql_insert (statement_of v) d new s of
        Inl err \<Rightarrow> on_storage_error v s
      | Inr s2 \<Rightarrow> (Finished (Inr r), log (saved_line v) s2))"
| "proc_step P cfg (Finished out) s = (Finished out, s)"

text \<open>
  A schedule names, turn by turn, the delivery that runs next; the interleavings of a pool
  of deliveries are its schedules.
\<close>

fun run_schedule ::
  "platform \<Rightarrow> config \<Rightarrow> nat list \<Rightarrow> server \<times> in_flight list \<Rightarrow> server \<times> in_flight list" where
  "run_schedule P cfg [] st = st"
| "run_schedule P cfg (i # sched) st =
     (if i < length (snd st)
      then run_schedule P cfg sched
             (snd (proc_step P cfg (snd st ! i) (fst st)),
              (snd st)[i := fst (proc_step P cfg (snd st ! i) (fst st))])
      else run_schedule P cfg sched st)"

text \<open>The outcomes of the deliveries of a pool that have finished.\<close>

fun responses :: "in_flight list \<Rightarrow> (js_error + response) list" where
  "responses [] = []"
| "responses (Finished out # ps) = out # responses ps"
| "responses (p # ps) = responses ps"

section \<open>Notions the claims are stated with\<close>

text \<open>
  The source-domain check of each handler (src/api/shopify-orders-paid.js line 75,
  src/unnamed/part_000 line 53), and the response each gives to a topic it ignores
  (lines 89 and 61).
\<close>

definition domain_rejected :: "variant \<Rightarrow> config \<Rightarrow> request \<Rightarrow> bool" where
  "domain_rejected v cfg req =
     (let shop = toLowerCase (header_or_empty req ''x-shopify-shop-domain'')
      in case v of
           Api \<Rightarrow> ALLOWED_SHOPIFY_DOMAIN cfg \<noteq> [] \<and> shop \<noteq> ALLOWED_SHOPIFY_DOMAIN cfg
         | Part000 \<Rightarrow> ALLOWED_SHOPIFY_DOMAIN cfg = [] \<or> shop \<noteq> ALLOWED_SHOPIFY_DOMAIN cfg)"

definition topic_skip :: "variant \<Rightarrow> response" where
  "topic_skip v =
     (case v of
        Api \<Rightarrow> Response 200 (SkippedJson ''Not an orders/paid topic'')
      | Part000 \<Rightarrow> Response 200 (Text ''Ignored topic''))"

text \<open>
  A statement sent to the database fails: the insert, or the provisioning while
  \<open>tableReady\<close> is not yet set.
\<close>

definition storage_fails :: "delivery \<Rightarrow> server \<Rightarrow> bool" where
  "storage_fails d s = (fault d = InsertFails \<or> (fault d = EnsureTableFails \<and> \<not> tableReady s))"

text \<open>
  The request reaches the persistence step: with a database that answers, the handler
  ends with the response it sends after the insert (\<open>{ok: true, order_id, ...}\<close> in
  src/api/shopify-orders-paid.js, \<open>OK\<close> in src/unnamed/part_000).
\<close>

definition reaches_persistence ::
  "variant \<Rightarrow> platform \<Rightarrow> config \<Rightarrow> delivery \<Rightarrow> request \<Rightarrow> server \<Rightarrow> bool" where
  "reaches_persistence v P cfg d req s =
     (case fst (handler v P cfg (d\<lparr>fault := NoFault\<rparr>) req s) of
        Inl err \<Rightarrow> False
      | Inr r \<Rightarrow>
          (case body r of
             SavedJson orderId amount \<Rightarrow> True
           | Text t \<Rightarrow> t = ''OK''
           | _ \<Rightarrow> False))"

text \<open>
  A row stores the percent the handlers use under the configuration, and the cashback
  amount calculated from its own \<open>total_paid\<close> and that percent.
\<close>

definition row_calculated :: "config \<Rightarrow> cashback_event \<Rightarrow> bool" where
  "row_calculated cfg r =
     (cashback_percent r = cashbackPercent cfg \<and>
      cashback_amount r = cashbackAmount (total_paid r) (cashbackPercent cfg))"

text \<open>
  The rounding the specification asks of the calculator, on exact decimals:
  \<open>round(total_paid \<times> percent / 100, 2)\<close> with halves rounded up, or with halves rounded
  to the even neighbour (banker's rounding).
\<close>

definition spec_round_half_up :: "rat \<Rightarrow> rat" where
  "spec_round_half_up x = of_int \<lfloor>x * 100 + 1 / 2\<rfloor> / 100"

definition spec_round_bankers :: "rat \<Rightarrow> rat" where
  "spec_round_bankers x = of_int (round_half_even (x * 100)) / 100"

section \<open>Concrete inputs\<close>

text \<open>
  A fixed platform, configuration and requests, on which the handlers are run below. The
  platform's hash is a stand-in that returns 44 characters, as the base64 of a SHA-256
  digest does; its parser and conversions know the bodies and numerals used here.
\<close>

definition order_1001_200 :: string where
  \<open>order_1001_200 = ''{"id":"1001","total_price":"200.00","currency":"EUR"}''\<close>

definition order_1001_250 :: string where
  \<open>order_1001_250 = ''{"id":"1001","total_price":"250.00","currency":"EUR"}''\<close>

definition order_1002_zero :: string where
  \<open>order_1002_zero = ''{"id":"1002","total_price":"0"}''\<close>

definition test_platform :: platform where
  "test_platform =
     \<lparr> hmac_sha256_base64 = (\<lambda>key msg. take 44 (key @ msg @ replicate 44 CHR ''='')),
       JSON_parse =
         map_of
           [(order_1001_200,
             JObj [(''id'', JStr ''1001''), (''total_price'', JStr ''200.00''), (''currency'', JStr ''EUR'')]),
            (order_1001_250,
             JObj [(''id'', JStr ''1001''), (''total_price'', JStr ''250.00''), (''currency'', JStr ''EUR'')]),
            (order_1002_zero, JObj [(''id'', JStr ''1002''), (''total_price'', JStr ''0'')])],
       StringToNumber =
         (\<lambda>s. case map_of [(''200.00'', Fin 200), (''250.00'', Fin 250), (''0'', Fin 0), ([], Fin 0)] s of
                None \<Rightarrow> NaN
              | Some n \<Rightarrow> n),
       NumberToString = (\<lambda>n. if n = Fin 0 then ''0'' else ''NaN'') \<rparr>"

definition test_config :: config where
  "test_config =
     \<lparr> SHOPIFY_WEBHOOK_SECRET = ''shpss_test'',
       ALLOWED_SHOPIFY_DOMAIN = ''luxem.myshopify.com'',
       LSC_CASHBACK_PERCENT = Fin 5 \<rparr>"

definition signed_post :: "string \<Rightarrow> string \<Rightarrow> string \<Rightarrow> request" where
  "signed_post shop topic text =
     \<lparr> req_method = ''POST'',
       headers =
         [''x-shopify-hmac-sha256'' \<mapsto> hmac_sha256_base64 test_platform ''shpss_test'' text,
          ''x-shopify-topic'' \<mapsto> topic,
          ''x-shopify-shop-domain'' \<mapsto> shop],
       req_body = text \<rparr>"

text \<open>An environment in which \<open>ALLOWED_SHOPIFY_DOMAIN\<close> and the percent are not set.\<close>

definition no_allow_list :: environment where
  "no_allow_list =
     \<lparr> env_SHOPIFY_WEBHOOK_SECRET = Some ''shpss_test'', env_ALLOWED_SHOPIFY_DOMAIN = None,
       env_LSC_CASHBACK_PERCENT = None \<rparr>"

definition empty_server :: server where
  "empty_server = \<lparr> tableReady = False, lsc_cashback_events = [], console = [] \<rparr>"

definition healthy :: delivery where
  "healthy = \<lparr> fault = NoFault, now = 0 \<rparr>"

definition malformed_body :: string where
  \<open>malformed_body = ''{"id":''\<close>

text \<open>
  The same request without a signature header, and with a signature of the right length
  that is not the digest.
\<close>

definition unsigned_post :: "string \<Rightarrow> string \<Rightarrow> string \<Rightarrow> request" where
  "unsigned_post shop topic text =
     \<lparr> req_method = ''POST'',
       headers = [''x-shopify-topic'' \<mapsto> topic, ''x-shopify-shop-domain'' \<mapsto> shop],
       req_body = text \<rparr>"

definition forged_post :: "string \<Rightarrow> string \<Rightarrow> string \<Rightarrow> request" where
  "forged_post shop topic text =
     \<lparr> req_method = ''POST'',
       headers =
         [''x-shopify-hmac-sha256'' \<mapsto> replicate 44 CHR ''A'',
          ''x-shopify-topic'' \<mapsto> topic,
          ''x-shopify-shop-domain'' \<mapsto> shop],
       req_body = text \<rparr>"

section \<open>One row per order\<close>

lemma timingSafeEqualStr_eq: "timingSafeEqualStr a b = Inr (a = b)"
  by (auto simp: timingSafeEqualStr_def timingSafeEqual_def)

lemma order_id_update_rows:
  "map order_id (map (\<lambda>r. if order_id r = k then new\<lparr>created_at := created_at r, order_id := k\<rparr> else r) rows)
   = map order_id rows"
  by (induction rows) auto

lemma distinct_insert_do_update:
  assumes "distinct (map order_id rows)"
  shows "distinct (map order_id (insert_do_update new rows))"
proof (cases "order_id new \<in> set (map order_id rows)")
  case True
  have "map order_id (insert_do_update new rows) = map order_id rows"
    using True order_id_update_rows [of "order_id new" new rows]
    by (simp add: insert_do_update_def)
  with assms show ?thesis by simp
next
  case False
  with assms show ?thesis by (simp add: insert_do_update_def)
qed

lemma distinct_insert_do_nothing:
  "distinct (map order_id rows) \<Longrightarrow> distinct (map order_id (insert_do_nothing new rows))"
  by (auto simp: insert_do_nothing_def)

lemma ensureTable_rows:
  "ensureTable d s = Inr s1 \<Longrightarrow> lsc_cashback_events s1 = lsc_cashback_events s"
  by (auto simp: ensureTable_def split: if_splits)

lemma sql_insert_rows:
  "sql_insert stmt d new s1 = Inr s2 \<Longrightarrow> lsc_cashback_events s2 = stmt new (lsc_cashback_events s1)"
  by (auto simp: sql_insert_def split: if_splits)

lemma log_rows [simp]: "lsc_cashback_events (log l s) = lsc_cashback_events s"
  by (simp add: log_def)

lemma handler_api_try_rows:
  "lsc_cashback_events (snd (handler_api_try P cfg d req s)) = lsc_cashback_events s \<or>
   (\<exists>new. lsc_cashback_events (snd (handler_api_try P cfg d req s)) =
      insert_do_update new (lsc_cashback_events s))"
  by (auto simp: handler_api_try_def Let_def dest!: ensureTable_rows sql_insert_rows
      split: sum.splits option.splits if_splits)

lemma handler_api_rows:
  "lsc_cashback_events (snd (handler_api P cfg d req s)) = lsc_cashback_events s \<or>
   (\<exists>new. lsc_cashback_events (snd (handler_api P cfg d req s)) =
      insert_do_update new (lsc_cashback_events s))"
  using handler_api_try_rows [of P cfg d req s]
  by (auto simp: handler_api_def split: prod.splits sum.splits)

lemma record_part000_rows:
  "lsc_cashback_events (record_part000 d new s) = lsc_cashback_events s \<or>
   lsc_cashback_events (record_part000 d new s) = insert_do_nothing new (lsc_cashback_events s)"
  by (auto simp: record_part000_def dest!: ensureTable_rows sql_insert_rows split: sum.splits)

lemma handler_part000_rows:
  "lsc_cashback_events (snd (handler_part000 P cfg d req s)) = lsc_cashback_events s \<or>
   (\<exists>new. lsc_cashback_events (snd (handler_part000 P cfg d req s)) =
      insert_do_nothing new (lsc_cashback_events s))"
  using record_part000_rows
  by (auto simp: handler_part000_def Let_def timingSafeEqualStr_eq split: sum.splits option.splits if_splits)

lemma handler_distinct:
  "distinct (map order_id (lsc_cashback_events s)) \<Longrightarrow>
   distinct (map order_id (lsc_cashback_events (snd (handler v P cfg d req s))))"
  using handler_api_rows [of P cfg d req s] handler_part000_rows [of P cfg d req s]
  by (cases v) (auto simp: handler_def distinct_insert_do_update distinct_insert_do_nothing)

lemma deliver_all_distinct:
  "distinct (map order_id (lsc_cashback_events s)) \<Longrightarrow>
   distinct (map order_id (lsc_cashback_events (deliver_all P cfg ds s)))"
  by (induction ds arbitrary: s) (auto simp: handler_distinct)

lemma distinct_count_le_1:
  "distinct (map f xs) \<Longrightarrow> length (filter (\<lambda>r. f r = k) xs) \<le> 1"
proof (induction xs)
  case Nil
  show ?case by simp
next
  case (Cons a xs)
  show ?case
  proof (cases "f a = k")
    case True
    from Cons.prems have "f a \<notin> f ` set xs" by simp
    with True have "\<forall>x\<in>set xs. f x \<noteq> k" by blast
    then have "filter (\<lambda>r. f r = k) xs = []" by (simp add: filter_empty_conv)
    with True show ?thesis by simp
  next
    case False
    with Cons show ?thesis by simp
  qed
qed

text \<open>
  No handler reads the table. Run on two states that differ in the rows only, a handler
  gives the same response, and whatever relation between the two tables is kept by one and
  the same insert is kept by the handler: what it writes is one statement whose row is
  computed from the request alone.
\<close>

lemma handler_api_try_two_runs:
  assumes "tableReady s' = tableReady s"
    and "R (lsc_cashback_events s) (lsc_cashback_events s')"
    and "\<And>new. R (insert_do_update new (lsc_cashback_events s)) (insert_do_update new (lsc_cashback_events s'))"
  shows "R (lsc_cashback_events (snd (handler_api_try P cfg d req s)))
           (lsc_cashback_events (snd (handler_api_try P cfg d req s'))) \<and>
         fst (handler_api_try P cfg d req s) = fst (handler_api_try P cfg d req s')"
  using assms(1,2)
  by (simp add: handler_api_try_def Let_def sql_insert_def ensureTable_def log_def assms(3)
      split: sum.split option.split)

lemma handler_api_two_runs:
  assumes "tableReady s' = tableReady s"
    and "R (lsc_cashback_events s) (lsc_cashback_events s')"
    and "\<And>new. R (insert_do_update new (lsc_cashback_events s)) (insert_do_update new (lsc_cashback_events s'))"
  shows "R (lsc_cashback_events (snd (handler_api P cfg d req s)))
           (lsc_cashback_events (snd (handler_api P cfg d req s'))) \<and>
         fst (handler_api P cfg d req s) = fst (handler_api P cfg d req s')"
  using handler_api_try_two_runs [of s' s R P cfg d req, OF assms] assms(2)
  by (cases "handler_api_try P cfg d req s"; cases "handler_api_try P cfg d req s'")
    (auto simp: handler_api_def split: sum.splits)

lemma handler_part000_two_runs:
  assumes "tableReady s' = tableReady s"
    and "R (lsc_cashback_events s) (lsc_cashback_events s')"
    and "\<And>new. R (insert_do_nothing new (lsc_cashback_events s)) (insert_do_nothing new (lsc_cashback_events s'))"
  shows "R (lsc_cashback_events (snd (handler_part000 P cfg d req s)))
           (lsc_cashback_events (snd (handler_part000 P cfg d req s'))) \<and>
         fst (handler_part000 P cfg d req s) = fst (handler_part000 P cfg d req s')"
  using assms(1,2)
  by (simp add: handler_part000_def record_part000_def Let_def timingSafeEqualStr_eq
      sql_insert_def ensureTable_def log_def assms(3) split: option.split)

lemma handler_two_runs:
  assumes "tableReady s' = tableReady s"
    and "R (lsc_cashback_events s) (lsc_cashback_events s')"
    and "\<And>new. R (insert_do_update new (lsc_cashback_events s)) (insert_do_update new (lsc_cashback_events s'))"
    and "\<And>new. R (insert_do_nothing new (lsc_cashback_events s)) (insert_do_nothing new (lsc_cashback_events s'))"
  shows "R (lsc_cashback_events (snd (handler v P cfg d req s)))
           (lsc_cashback_events (snd (handler v P cfg d req s'))) \<and>
         fst (handler v P cfg d req s) = fst (handler v P cfg d req s')"
proof (cases v)
  case Api
  with handler_api_two_runs [of s' s R P cfg d req, OF assms(1,2,3)] show ?thesis
    by (simp add: handler_def)
next
  case Part000
  with handler_part000_two_runs [of s' s R P cfg d req, OF assms(1,2,4)] show ?thesis
    by (simp add: handler_def)
qed

lemma response_independent_of_table:
  "fst (handler v P cfg d req (s\<lparr>lsc_cashback_events := rows\<rparr>)) = fst (handler v P cfg d req s)"
  using handler_two_runs [of s "s\<lparr>lsc_cashback_events := rows\<rparr>" "\<lambda>a b. True" v P cfg d req]
  by simp

subsection \<open>Deliveries that take turns\<close>

text \<open>
  A delivery that runs alone, three turns in a row, is the handler: the turns cut the
  handler at its \<open>await\<close>s and change nothing else.
\<close>

lemma api_alone:
  "run_schedule P cfg [0, 0, 0] (s, [Received Api d req]) =
     (snd (handler_api P cfg d req s), [Finished (fst (handler_api P cfg d req s))])"
  by (simp add: api_front_def handler_api_def handler_api_try_def Let_def ensureTable_def
      sql_insert_def on_storage_error_def statement_of_def saved_line_def
      split: sum.split option.split)

lemma part000_alone:
  "run_schedule P cfg [0, 0, 0] (s, [Received Part000 d req]) =
     (snd (handler_part000 P cfg d req s), [Finished (fst (handler_part000 P cfg d req s))])"
  by (simp add: part000_front_def handler_part000_def record_part000_def Let_def ensureTable_def
      sql_insert_def on_storage_error_def statement_of_def saved_line_def timingSafeEqualStr_eq
      split: sum.split option.split)

lemma on_storage_error_rows:
  "lsc_cashback_events (snd (on_storage_error v s)) = lsc_cashback_events s"
  by (cases v) (simp_all add: on_storage_error_def)

lemma proc_step_rows:
  "lsc_cashback_events (snd (proc_step P cfg p s)) =
     (case p of
        Inserting v d new r \<Rightarrow>
          (if fault d = InsertFails then lsc_cashback_events s
           else statement_of v new (lsc_cashback_events s))
      | _ \<Rightarrow> lsc_cashback_events s)"
proof (cases p)
  case (Received v d req)
  then show ?thesis
    by (cases v) (simp_all split: sum.split prod.split)
next
  case (Provisioning v d new r)
  then show ?thesis by (simp add: on_storage_error_rows)
next
  case (Inserting v d new r)
  then show ?thesis by (simp add: sql_insert_def on_storage_error_rows)
next
  case (Finished out)
  then show ?thesis by simp
qed

lemma statement_of_distinct:
  "distinct (map order_id rows) \<Longrightarrow> distinct (map order_id (statement_of v new rows))"
  by (cases v) (simp_all add: statement_of_def distinct_insert_do_update distinct_insert_do_nothing)

lemma proc_step_distinct:
  "distinct (map order_id (lsc_cashback_events s)) \<Longrightarrow>
   distinct (map order_id (lsc_cashback_events (snd (proc_step P cfg p s))))"
  unfolding proc_step_rows by (cases p) (simp_all add: statement_of_distinct)

lemma run_schedule_distinct:
  "distinct (map order_id (lsc_cashback_events (fst st))) \<Longrightarrow>
   distinct (map order_id (lsc_cashback_events (fst (run_schedule P cfg sched st))))"
  by (induction sched arbitrary: st) (simp_all add: proc_step_distinct)

lemma proc_step_blind:
  "fst (proc_step P cfg p (s\<lparr>lsc_cashback_events := rows\<rparr>)) = fst (proc_step P cfg p s)"
proof (cases p)
  case (Received v d req)
  then show ?thesis
    by (cases v) (simp_all split: sum.split prod.split)
next
  case (Provisioning v d new r)
  then show ?thesis by (cases v) (simp_all add: on_storage_error_def)
next
  case (Inserting v d new r)
  then show ?thesis by (cases v) (simp_all add: sql_insert_def on_storage_error_def)
next
  case (Finished out)
  then show ?thesis by simp
qed

lemma insert_do_update_keys:
  "map order_id (insert_do_update new rows) =
     (if order_id new \<in> set (map order_id rows) then map order_id rows
      else map order_id rows @ [order_id new])"
  using order_id_update_rows [of "order_id new" new rows]
  by (simp add: insert_do_update_def)

lemma statement_of_has:
  "order_id new \<in> set (map order_id (statement_of v new rows))"
proof (cases v)
  case Api
  have "order_id new \<in> set (map order_id (insert_do_update new rows))"
    unfolding insert_do_update_keys by simp
  with Api show ?thesis by (simp add: statement_of_def)
next
  case Part000
  then show ?thesis by (simp add: statement_of_def insert_do_nothing_def)
qed

lemma inserting_step:
  "fst (proc_step P cfg (Inserting v d new r) s) =
     (if fault d = InsertFails then fst (on_storage_error v s) else Finished (Inr r))"
  by (simp add: sql_insert_def)

lemma handler_alone:
  "run_schedule P cfg [0, 0, 0] (s, [Received v d req]) =
     (snd (handler v P cfg d req s), [Finished (fst (handler v P cfg d req s))])"
  using api_alone [of P cfg s d req] part000_alone [of P cfg s d req]
  by (cases v) (simp_all only: handler_def variant.case)

text \<open>
  C1. The table is keyed by \<open>order_id\<close>, and each handler writes to it through one
  statement, \<open>INSERT ... ON CONFLICT (order_id)\<close>. From a table with at most one row per
  order (the empty table, for one), at most one row exists for every order identifier
  after any sequence of deliveries, served by either handler and with or without storage
  faults, and also after any interleaving of any pool of deliveries that take turns at
  their \<open>await\<close>s, run for any number of turns. This is achieved by the statement alone.
  The turns are the handlers: a delivery that runs alone is the handler. No turn reads
  the rows: the point a delivery is left at is the same whatever the table holds, so
  nothing read from the table is carried to a later turn. The rows change in one kind of
  turn only, the insert, and there they become the result of the statement on the table
  as it is at that turn. That turn does not fail on a conflict: unless the database
  fails, the delivery finishes with its response, and the table then holds a row with the
  order identifier.
\<close>

theorem one_event_per_order_atomically:
  assumes "distinct (map order_id (lsc_cashback_events s))"
  shows "length (filter (\<lambda>r. order_id r = k) (lsc_cashback_events (deliver_all P cfg ds s))) \<le> 1 \<and>
         length (filter (\<lambda>r. order_id r = k)
           (lsc_cashback_events (fst (run_schedule P cfg sched (s, procs))))) \<le> 1 \<and>
         run_schedule P cfg [0, 0, 0] (s', [Received v d req]) =
           (snd (handler v P cfg d req s'), [Finished (fst (handler v P cfg d req s'))]) \<and>
         fst (proc_step P cfg p (s'\<lparr>lsc_cashback_events := rows\<rparr>)) = fst (proc_step P cfg p s') \<and>
         lsc_cashback_events (snd (proc_step P cfg p s')) =
           (case p of
              Inserting v' d' new' r' \<Rightarrow>
                (if fault d' = InsertFails then lsc_cashback_events s'
                 else statement_of v' new' (lsc_cashback_events s'))
            | _ \<Rightarrow> lsc_cashback_events s') \<and>
         fst (proc_step P cfg (Inserting v d new r) s') =
           (if fault d = InsertFails then fst (on_storage_error v s') else Finished (Inr r)) \<and>
         order_id new \<in> set (map order_id (statement_of v new rows))"
proof (intro conjI)
  show "length (filter (\<lambda>r. order_id r = k) (lsc_cashback_events (deliver_all P cfg ds s))) \<le> 1"
    by (rule distinct_count_le_1) (rule deliver_all_distinct [OF assms])
  from assms have "distinct (map order_id (lsc_cashback_events (fst (s, procs))))" by simp
  then show "length (filter (\<lambda>r. order_id r = k)
      (lsc_cashback_events (fst (run_schedule P cfg sched (s, procs))))) \<le> 1"
    by (intro distinct_count_le_1 run_schedule_distinct)
  show "run_schedule P cfg [0, 0, 0] (s', [Received v d req]) =
      (snd (handler v P cfg d req s'), [Finished (fst (handler v P cfg d req s'))])"
    by (rule handler_alone)
  show "fst (proc_step P cfg p (s'\<lparr>lsc_cashback_events := rows\<rparr>)) = fst (proc_step P cfg p s')"
    by (rule proc_step_blind)
  show "lsc_cashback_events (snd (proc_step P cfg p s')) =
      (case p of
         Inserting v' d' new' r' \<Rightarrow>
           (if fault d' = InsertFails then lsc_cashback_events s'
            else statement_of v' new' (lsc_cashback_events s'))
       | _ \<Rightarrow> lsc_cashback_events s')"
    by (rule proc_step_rows)
  show "fst (proc_step P cfg (Inserting v d new r) s') =
      (if fault d = InsertFails then fst (on_storage_error v s') else Finished (Inr r))"
    by (rule inserting_step)
  show "order_id new \<in> set (map order_id (statement_of v new rows))"
    by (rule statement_of_has)
qed

text \<open>
  Two deliveries of order 1001, one to each handler, with different amounts. Both are
  received and both provision the table before either inserts; then the handler of
  src/unnamed/part_000 inserts, and the handler of src/api/shopify-orders-paid.js after
  it. One row is left, and both deliveries are answered 200.
\<close>

theorem one_event_per_order_atomically_witness:
  "distinct (map order_id (lsc_cashback_events empty_server)) \<and>
   length (filter (\<lambda>r. order_id r = ''1001'')
     (lsc_cashback_events
        (fst (run_schedule test_platform test_config [0, 1, 0, 1, 1, 0]
           (empty_server,
            [Received Api healthy (signed_post ''luxem.myshopify.com'' ''orders/paid'' order_1001_200),
             Received Part000 healthy (signed_post ''luxem.myshopify.com'' ''orders/paid'' order_1001_250)]))))) \<le> 1 \<and>
   map (\<lambda>r. (order_id r, total_paid r))
     (lsc_cashback_events
        (fst (run_schedule test_platform test_config [0, 1, 0, 1, 1, 0]
           (empty_server,
            [Received Api healthy (signed_post ''luxem.myshopify.com'' ''orders/paid'' order_1001_200),
             Received Part000 healthy (signed_post ''luxem.myshopify.com'' ''orders/paid'' order_1001_250)])))) =
     [(''1001'', Fin 200)] \<and>
   responses (snd (run_schedule test_platform test_config [0, 1, 0, 1, 1, 0]
     (empty_server,
            [Received Api healthy (signed_post ''luxem.myshopify.com'' ''orders/paid'' order_1001_200),
             Received Part000 healthy (signed_post ''luxem.myshopify.com'' ''orders/paid'' order_1001_250)]))) =
     [Inr (Response 200 (SavedJson ''1001'' (Fin 10))), Inr (Response 200 (Text ''OK''))]"
proof -
  have h: "distinct (map order_id (lsc_cashback_events empty_server))"
    by (simp add: empty_server_def)
  have rows: "map (\<lambda>r. (order_id r, total_paid r))
     (lsc_cashback_events
        (fst (run_schedule test_platform test_config [0, 1, 0, 1, 1, 0]
           (empty_server,
            [Received Api healthy (signed_post ''luxem.myshopify.com'' ''orders/paid'' order_1001_200),
             Received Part000 healthy (signed_post ''luxem.myshopify.com'' ''orders/paid'' order_1001_250)])))) =
     [(''1001'', Fin 200)]"
    by code_simp
  have out: "responses (snd (run_schedule test_platform test_config [0, 1, 0, 1, 1, 0]
     (empty_server,
            [Received Api healthy (signed_post ''luxem.myshopify.com'' ''orders/paid'' order_1001_200),
             Received Part000 healthy (signed_post ''luxem.myshopify.com'' ''orders/paid'' order_1001_250)]))) =
     [Inr (Response 200 (SavedJson ''1001'' (Fin 10))), Inr (Response 200 (Text ''OK''))]"
    by code_simp
  show ?thesis
    by (intro conjI h rows out one_event_per_order_atomically [OF h, THEN conjunct2, THEN conjunct1])
qed

section \<open>Facts shared by the claims\<close>

subsection \<open>The concrete inputs\<close>

lemma signed_post_method: "req_method (signed_post shop topic text) = ''POST''"
  by (simp add: signed_post_def)

lemma signed_post_hmac:
  "headers (signed_post shop topic text) ''x-shopify-hmac-sha256'' =
   Some (hmac_sha256_base64 test_platform (SHOPIFY_WEBHOOK_SECRET test_config) (req_body (signed_post shop topic text)))"
  by (simp add: signed_post_def test_config_def)

lemma signed_post_topic: "headers (signed_post shop topic text) ''x-shopify-topic'' = Some topic"
  by (simp add: signed_post_def)

lemma signed_post_shop:
  "header_or_empty (signed_post shop topic text) ''x-shopify-shop-domain'' = shop"
  by (simp add: signed_post_def header_or_empty_def)

lemma signed_post_body: "req_body (signed_post shop topic text) = text"
  by (simp add: signed_post_def)

lemma test_config_fields:
  "SHOPIFY_WEBHOOK_SECRET test_config \<noteq> []"
  "ALLOWED_SHOPIFY_DOMAIN test_config \<noteq> []"
  "ALLOWED_SHOPIFY_DOMAIN test_config = ''luxem.myshopify.com''"
  by (simp_all add: test_config_def)

lemma lower_test_domain: "toLowerCase ''luxem.myshopify.com'' = ''luxem.myshopify.com''"
  by (simp add: toLowerCase_def lower_char_def)

lemma parse_1002_zero:
  "JSON_parse test_platform order_1002_zero = Some (JObj [(''id'', JStr ''1002''), (''total_price'', JStr ''0'')])"
  by code_simp

lemma parse_1001_200:
  "JSON_parse test_platform order_1001_200 =
   Some (JObj [(''id'', JStr ''1001''), (''total_price'', JStr ''200.00''), (''currency'', JStr ''EUR'')])"
  by code_simp

lemma parse_malformed: "JSON_parse test_platform malformed_body = None"
  by code_simp

subsection \<open>A verified request that the handlers process\<close>

lemma insert_do_update_has:
  "\<exists>r \<in> set (insert_do_update new rows). order_id r = order_id new \<and> total_paid r = total_paid new"
proof (cases "order_id new \<in> set (map order_id rows)")
  case True
  then obtain x where x: "x \<in> set rows" "order_id x = order_id new"
    by auto
  let ?g = "\<lambda>r. if order_id r = order_id new then new\<lparr>created_at := created_at r\<rparr> else r"
  have eq: "insert_do_update new rows = map ?g rows"
    using True by (simp add: insert_do_update_def)
  have "?g x \<in> set (insert_do_update new rows)"
    using x(1) by (simp only: eq set_map) (rule imageI)
  moreover have "order_id (?g x) = order_id new \<and> total_paid (?g x) = total_paid new"
    using x(2) by simp
  ultimately show ?thesis by blast
next
  case False
  then show ?thesis
    by (simp add: insert_do_update_def)
qed

lemma str_includes_nonempty: "str_includes t (c # cs) \<Longrightarrow> t \<noteq> []"
  by (cases t) auto

lemma handler_api_recorded:
  assumes "req_method req = ''POST''"
    and "ALLOWED_SHOPIFY_DOMAIN cfg = [] \<or>
         toLowerCase (header_or_empty req ''x-shopify-shop-domain'') = ALLOWED_SHOPIFY_DOMAIN cfg"
    and "SHOPIFY_WEBHOOK_SECRET cfg \<noteq> []"
    and "headers req ''x-shopify-hmac-sha256'' =
         Some (hmac_sha256_base64 P (SHOPIFY_WEBHOOK_SECRET cfg) (req_body req))"
    and "headers req ''x-shopify-topic'' = Some t" and "str_includes t ''order''"
    and "JSON_parse P (req_body req) = Some payload"
    and "orderId_api P payload = Some orderId"
    and "totalPaid_api P payload = Some totalPaid"
    and "fault d = NoFault"
  shows "\<exists>rows. handler_api P cfg d req s =
           (Inr (Response 200 (SavedJson orderId (cashbackAmount totalPaid (cashbackPercent cfg)))),
            log (LogInfo ''Cashback saved:'') (s\<lparr>tableReady := True, lsc_cashback_events := rows\<rparr>)) \<and>
         (\<exists>r \<in> set rows. order_id r = orderId \<and> total_paid r = totalPaid)"
proof -
  have v: "verifyShopifyHmac P cfg (req_body req) (headers req ''x-shopify-hmac-sha256'') = Inr True"
    using assms(3,4) by (simp add: verifyShopifyHmac_def timingSafeEqual_def)
  have t: "t \<noteq> []"
    using assms(6) by (rule str_includes_nonempty)
  have e: "ensureTable d s = Inr (s\<lparr>tableReady := True\<rparr>)"
    using assms(10) by (cases "tableReady s") (auto simp: ensureTable_def)
  let ?new = "\<lparr> order_id = orderId, created_at = now d,
      shop_domain = toLowerCase (header_or_empty req ''x-shopify-shop-domain''),
      customer_email = customerEmail_api payload, currency = currency_api payload,
      total_paid = totalPaid, cashback_percent = cashbackPercent cfg,
      cashback_amount = cashbackAmount totalPaid (cashbackPercent cfg), raw = payload \<rparr>"
  have "handler_api_try P cfg d req s =
          (Inr (Response 200 (SavedJson orderId (cashbackAmount totalPaid (cashbackPercent cfg)))),
           log (LogInfo ''Cashback saved:'')
             (s\<lparr>tableReady := True, lsc_cashback_events := insert_do_update ?new (lsc_cashback_events s)\<rparr>))"
    using assms(2,5,6,7,8,9,10) v t e
    by (auto simp: handler_api_try_def Let_def sql_insert_def)
  then have h: "handler_api P cfg d req s =
          (Inr (Response 200 (SavedJson orderId (cashbackAmount totalPaid (cashbackPercent cfg)))),
           log (LogInfo ''Cashback saved:'')
             (s\<lparr>tableReady := True, lsc_cashback_events := insert_do_update ?new (lsc_cashback_events s)\<rparr>))"
    using assms(1) by (simp add: handler_api_def)
  have "\<exists>r \<in> set (insert_do_update ?new (lsc_cashback_events s)). order_id r = orderId \<and> total_paid r = totalPaid"
    using insert_do_update_has [of ?new "lsc_cashback_events s"] by simp
  with h show ?thesis by blast
qed

lemma handler_part000_missing_data:
  assumes "req_method req = ''POST''"
    and "ALLOWED_SHOPIFY_DOMAIN cfg \<noteq> []"
    and "toLowerCase (header_or_empty req ''x-shopify-shop-domain'') = ALLOWED_SHOPIFY_DOMAIN cfg"
    and "SHOPIFY_WEBHOOK_SECRET cfg \<noteq> []"
    and "headers req ''x-shopify-hmac-sha256'' =
         Some (hmac_sha256_base64 P (SHOPIFY_WEBHOOK_SECRET cfg) (req_body req))"
    and "toLowerCase (header_or_empty req ''x-shopify-topic'') = ''orders/paid''"
    and "JSON_parse P (req_body req) = Some payload"
    and "orderId_part000 P payload = Some orderId"
    and "totalPaid_part000 P payload = Some totalPaid"
    and "orderId = [] \<or> \<not> js_gt totalPaid (Fin 0)"
  shows "handler_part000 P cfg d req s = (Inr (Response 200 (Text ''Missing order data'')), s)"
proof -
  have "header_or_empty req ''x-shopify-hmac-sha256'' =
          hmac_sha256_base64 P (SHOPIFY_WEBHOOK_SECRET cfg) (req_body req)"
    using assms(5) by (simp add: header_or_empty_def)
  then show ?thesis
    using assms(1,2,3,4,6,7,8,9,10)
    by (simp add: handler_part000_def Let_def timingSafeEqualStr_eq)
qed

lemma lower_orders_paid: "toLowerCase ''orders/paid'' = ''orders/paid''"
  by (simp add: toLowerCase_def lower_char_def)

section \<open>Signature mismatch\<close>

text \<open>
  Where the two handlers answer a wrong signature as asked: src/unnamed/part_000 answers
  403 to every signature that is not the digest, and src/api/shopify-orders-paid.js
  answers 401 to one of the digest's length.
\<close>

lemma part000_signature_mismatch:
  assumes "req_method req = ''POST''"
    and "ALLOWED_SHOPIFY_DOMAIN cfg \<noteq> []"
    and "toLowerCase (header_or_empty req ''x-shopify-shop-domain'') = ALLOWED_SHOPIFY_DOMAIN cfg"
    and "SHOPIFY_WEBHOOK_SECRET cfg \<noteq> []"
    and "header_or_empty req ''x-shopify-hmac-sha256'' \<noteq>
         hmac_sha256_base64 P (SHOPIFY_WEBHOOK_SECRET cfg) (req_body req)"
  shows "handler_part000 P cfg d req s = (Inr (Response 403 (Text ''Forbidden (hmac)'')), s)"
  using assms by (auto simp: handler_part000_def Let_def timingSafeEqualStr_eq)

lemma api_signature_mismatch_same_length:
  assumes "req_method req = ''POST''"
    and "ALLOWED_SHOPIFY_DOMAIN cfg = [] \<or>
         toLowerCase (header_or_empty req ''x-shopify-shop-domain'') = ALLOWED_SHOPIFY_DOMAIN cfg"
    and "SHOPIFY_WEBHOOK_SECRET cfg \<noteq> []"
    and "length (header_or_empty req ''x-shopify-hmac-sha256'') =
         length (hmac_sha256_base64 P (SHOPIFY_WEBHOOK_SECRET cfg) (req_body req))"
    and "header_or_empty req ''x-shopify-hmac-sha256'' \<noteq>
         hmac_sha256_base64 P (SHOPIFY_WEBHOOK_SECRET cfg) (req_body req)"
  shows "handler_api P cfg d req s = (Inr (Response 401 (ErrorJson ''Invalid HMAC'')), s)"
proof -
  have "verifyShopifyHmac P cfg (req_body req) (headers req ''x-shopify-hmac-sha256'') = Inr False"
    using assms(3,4,5)
    by (auto simp: verifyShopifyHmac_def timingSafeEqual_def header_or_empty_def Let_def)
  then have "handler_api_try P cfg d req s = (Inr (Response 401 (ErrorJson ''Invalid HMAC'')), s)"
    using assms(2) by (auto simp: handler_api_try_def Let_def)
  then show ?thesis
    using assms(1) by (simp add: handler_api_def)
qed

text \<open>
  C2. A signature that does not match must be answered 401 or 403 with nothing persisted,
  whatever its length. src/unnamed/part_000 compares the lengths first
  (\<open>timingSafeEqualStr\<close>). In src/api/shopify-orders-paid.js, \<open>verifyShopifyHmac\<close> hands
  both buffers to \<open>crypto.timingSafeEqual\<close>, which throws when their lengths differ; the
  \<open>catch\<close> of the handler then answers 200. For every POST from an accepted domain, with
  the secret configured, whose signature header is absent or of another length than the
  digest, the handler answers 200 \<open>{ok: false, error: "Logged server error"}\<close>; the table
  is left as it was.
\<close>

theorem api_signature_length_mismatch:
  assumes "req_method req = ''POST''"
    and "ALLOWED_SHOPIFY_DOMAIN cfg = [] \<or>
         toLowerCase (header_or_empty req ''x-shopify-shop-domain'') = ALLOWED_SHOPIFY_DOMAIN cfg"
    and "SHOPIFY_WEBHOOK_SECRET cfg \<noteq> []"
    and "length (header_or_empty req ''x-shopify-hmac-sha256'') \<noteq>
         length (hmac_sha256_base64 P (SHOPIFY_WEBHOOK_SECRET cfg) (req_body req))"
  shows "handler_api P cfg d req s =
           (Inr (Response 200 (ErrorJson ''Logged server error'')), log (LogError ''Webhook error:'') s)"
proof -
  have "verifyShopifyHmac P cfg (req_body req) (headers req ''x-shopify-hmac-sha256'') = Inl RangeError"
    using assms(3,4)
    by (auto simp: verifyShopifyHmac_def timingSafeEqual_def header_or_empty_def Let_def)
  then have "handler_api_try P cfg d req s = (Inl RangeError, s)"
    using assms(2) by (auto simp: handler_api_try_def Let_def)
  then show ?thesis
    using assms(1) by (simp add: handler_api_def)
qed

theorem api_signature_length_mismatch_witness:
  "handler_api test_platform test_config healthy
     (unsigned_post ''luxem.myshopify.com'' ''orders/paid'' order_1001_200) empty_server =
   (Inr (Response 200 (ErrorJson ''Logged server error'')),
    log (LogError ''Webhook error:'') empty_server)"
proof (rule api_signature_length_mismatch)
  show "req_method (unsigned_post ''luxem.myshopify.com'' ''orders/paid'' order_1001_200) = ''POST''"
    by (simp add: unsigned_post_def)
  show "ALLOWED_SHOPIFY_DOMAIN test_config = [] \<or>
        toLowerCase (header_or_empty (unsigned_post ''luxem.myshopify.com'' ''orders/paid'' order_1001_200)
           ''x-shopify-shop-domain'') = ALLOWED_SHOPIFY_DOMAIN test_config"
    by code_simp
  show "SHOPIFY_WEBHOOK_SECRET test_config \<noteq> []"
    by (simp add: test_config_def)
  show "length (header_or_empty (unsigned_post ''luxem.myshopify.com'' ''orders/paid'' order_1001_200)
           ''x-shopify-hmac-sha256'') \<noteq>
        length (hmac_sha256_base64 test_platform (SHOPIFY_WEBHOOK_SECRET test_config)
           (req_body (unsigned_post ''luxem.myshopify.com'' ''orders/paid'' order_1001_200)))"
    by code_simp
qed

section \<open>Topic filter\<close>

text \<open>src/unnamed/part_000 acknowledges a verified \<open>orders/updated\<close> and records nothing.\<close>

lemma part000_ignores_orders_updated:
  assumes "req_method req = ''POST''"
    and "ALLOWED_SHOPIFY_DOMAIN cfg \<noteq> []"
    and "toLowerCase (header_or_empty req ''x-shopify-shop-domain'') = ALLOWED_SHOPIFY_DOMAIN cfg"
    and "SHOPIFY_WEBHOOK_SECRET cfg \<noteq> []"
    and "headers req ''x-shopify-hmac-sha256'' =
         Some (hmac_sha256_base64 P (SHOPIFY_WEBHOOK_SECRET cfg) (req_body req))"
    and "headers req ''x-shopify-topic'' = Some ''orders/updated''"
  shows "handler_part000 P cfg d req s = (Inr (Response 200 (Text ''Ignored topic'')), s)"
proof -
  have h: "header_or_empty req ''x-shopify-hmac-sha256'' =
          hmac_sha256_base64 P (SHOPIFY_WEBHOOK_SECRET cfg) (req_body req)"
    using assms(5) by (simp add: header_or_empty_def)
  have t: "toLowerCase (header_or_empty req ''x-shopify-topic'') \<noteq> ''orders/paid''"
    using assms(6) by (simp add: header_or_empty_def toLowerCase_def lower_char_def)
  show ?thesis
    using assms(1,2,3,4) h t by (simp add: handler_part000_def Let_def timingSafeEqualStr_eq)
qed

text \<open>
  C3. A verified request with topic \<open>orders/updated\<close> must create no record and be
  acknowledged. src/unnamed/part_000 ignores every topic but \<open>orders/paid\<close>. In
  src/api/shopify-orders-paid.js the test \<open>topic.includes("order")\<close> lets the topic
  through: for every such request whose body parses and converts, with a database that
  answers, the handler answers 200 with the order and its cashback, and the table holds a
  row for the order.
\<close>

theorem api_records_orders_updated:
  assumes "req_method req = ''POST''"
    and "ALLOWED_SHOPIFY_DOMAIN cfg = [] \<or>
         toLowerCase (header_or_empty req ''x-shopify-shop-domain'') = ALLOWED_SHOPIFY_DOMAIN cfg"
    and "SHOPIFY_WEBHOOK_SECRET cfg \<noteq> []"
    and "headers req ''x-shopify-hmac-sha256'' =
         Some (hmac_sha256_base64 P (SHOPIFY_WEBHOOK_SECRET cfg) (req_body req))"
    and "headers req ''x-shopify-topic'' = Some ''orders/updated''"
    and "JSON_parse P (req_body req) = Some payload"
    and "orderId_api P payload = Some orderId"
    and "totalPaid_api P payload = Some totalPaid"
    and "fault d = NoFault"
  shows "fst (handler_api P cfg d req s) =
           Inr (Response 200 (SavedJson orderId (cashbackAmount totalPaid (cashbackPercent cfg)))) \<and>
         (\<exists>r \<in> set (lsc_cashback_events (snd (handler_api P cfg d req s))).
            order_id r = orderId \<and> total_paid r = totalPaid)"
proof -
  have i: "str_includes ''orders/updated'' ''order''" by simp
  from handler_api_recorded [OF assms(1,2,3,4,5) i assms(6,7,8,9), of s]
  obtain rows where h: "handler_api P cfg d req s =
           (Inr (Response 200 (SavedJson orderId (cashbackAmount totalPaid (cashbackPercent cfg)))),
            log (LogInfo ''Cashback saved:'') (s\<lparr>tableReady := True, lsc_cashback_events := rows\<rparr>))"
    and r: "\<exists>r \<in> set rows. order_id r = orderId \<and> total_paid r = totalPaid"
    by auto
  from h r show ?thesis by (simp add: log_def)
qed

theorem api_records_orders_updated_witness:
  "fst (handler_api test_platform test_config healthy
     (signed_post ''luxem.myshopify.com'' ''orders/updated'' order_1001_200) empty_server)
     = Inr (Response 200 (SavedJson ''1001'' (cashbackAmount (Fin 200) (cashbackPercent test_config)))) \<and>
   (\<exists>r \<in> set (lsc_cashback_events (snd (handler_api test_platform test_config healthy
        (signed_post ''luxem.myshopify.com'' ''orders/updated'' order_1001_200) empty_server))).
      order_id r = ''1001'' \<and> total_paid r = Fin 200)"
proof -
  let ?req = "signed_post ''luxem.myshopify.com'' ''orders/updated'' order_1001_200"
  let ?payload = "JObj [(''id'', JStr ''1001''), (''total_price'', JStr ''200.00''), (''currency'', JStr ''EUR'')]"
  have p: "JSON_parse test_platform (req_body ?req) = Some ?payload"
    by (simp only: signed_post_body parse_1001_200)
  have d: "ALLOWED_SHOPIFY_DOMAIN test_config = [] \<or>
      toLowerCase (header_or_empty ?req ''x-shopify-shop-domain'') = ALLOWED_SHOPIFY_DOMAIN test_config"
    by (simp add: signed_post_shop lower_test_domain test_config_fields)
  have o: "orderId_api test_platform ?payload = Some ''1001''" by code_simp
  have t: "totalPaid_api test_platform ?payload = Some (Fin 200)" by code_simp
  have f: "fault healthy = NoFault" by (simp add: healthy_def)
  show ?thesis
    by (rule api_records_orders_updated [OF signed_post_method d test_config_fields(1)
          signed_post_hmac signed_post_topic p o t f])
qed

section \<open>Missing order data\<close>

text \<open>
  The claim C4 asks both handlers to persist nothing when the order identifier is empty or
  the amount is not positive. src/api/shopify-orders-paid.js has no such check: a verified
  \<open>orders/paid\<close> request with \<open>total_price: "0"\<close> is recorded with amount 0.
\<close>

theorem missing_order_data_counterexample:
  "fst (handler_api test_platform test_config healthy
          (signed_post ''luxem.myshopify.com'' ''orders/paid'' order_1002_zero) empty_server)
     = Inr (Response 200 (SavedJson ''1002'' (Fin 0))) \<and>
   map order_id (lsc_cashback_events (snd (handler_api test_platform test_config healthy
          (signed_post ''luxem.myshopify.com'' ''orders/paid'' order_1002_zero) empty_server)))
     = [''1002''] \<and>
   map total_paid (lsc_cashback_events (snd (handler_api test_platform test_config healthy
          (signed_post ''luxem.myshopify.com'' ''orders/paid'' order_1002_zero) empty_server)))
     = [Fin 0] \<and>
   lsc_cashback_events empty_server = []"
  by code_simp

text \<open>
  C4, as the code has it. For every verified POST from the allowed domain with topic
  \<open>orders/paid\<close> whose body parses: src/unnamed/part_000 persists nothing and answers 200
  (\<open>Missing order data\<close>) when \<open>String(payload.id || "")\<close> is empty or the amount is not
  greater than 0 (absent, zero, negative or not a number), provided the payload is not
  \<open>null\<close> and the conversions do not throw; src/api/shopify-orders-paid.js falls back to
  the identifier \<open>""\<close> and the amount \<open>"0"\<close> and, with a database that answers, upserts
  a row with that identifier and amount and answers 200.
\<close>

theorem missing_order_data_soft_skip:
  assumes "req_method req = ''POST''"
    and "ALLOWED_SHOPIFY_DOMAIN cfg \<noteq> []"
    and "toLowerCase (header_or_empty req ''x-shopify-shop-domain'') = ALLOWED_SHOPIFY_DOMAIN cfg"
    and "SHOPIFY_WEBHOOK_SECRET cfg \<noteq> []"
    and "headers req ''x-shopify-hmac-sha256'' =
         Some (hmac_sha256_base64 P (SHOPIFY_WEBHOOK_SECRET cfg) (req_body req))"
    and "headers req ''x-shopify-topic'' = Some ''orders/paid''"
    and "JSON_parse P (req_body req) = Some payload"
  shows "(orderId_part000 P payload = Some orderId \<and> totalPaid_part000 P payload = Some totalPaid \<and>
          (orderId = [] \<or> \<not> js_gt totalPaid (Fin 0)) \<longrightarrow>
            handler_part000 P cfg d req s = (Inr (Response 200 (Text ''Missing order data'')), s)) \<and>
         (orderId_api P payload = Some orderId' \<and> totalPaid_api P payload = Some totalPaid' \<and>
          fault d = NoFault \<longrightarrow>
            fst (handler_api P cfg d req s) =
              Inr (Response 200 (SavedJson orderId' (cashbackAmount totalPaid' (cashbackPercent cfg)))) \<and>
            (\<exists>r \<in> set (lsc_cashback_events (snd (handler_api P cfg d req s))).
               order_id r = orderId' \<and> total_paid r = totalPaid'))"
proof (intro conjI impI)
  assume a: "orderId_part000 P payload = Some orderId \<and> totalPaid_part000 P payload = Some totalPaid \<and>
          (orderId = [] \<or> \<not> js_gt totalPaid (Fin 0))"
  have "toLowerCase (header_or_empty req ''x-shopify-topic'') = ''orders/paid''"
    using assms(6) by (simp add: header_or_empty_def lower_orders_paid)
  with assms a show "handler_part000 P cfg d req s = (Inr (Response 200 (Text ''Missing order data'')), s)"
    by (intro handler_part000_missing_data [where payload = payload and orderId = orderId and totalPaid = totalPaid]) simp_all
next
  assume b: "orderId_api P payload = Some orderId' \<and> totalPaid_api P payload = Some totalPaid' \<and>
          fault d = NoFault"
  have i: "str_includes ''orders/paid'' ''order''" by simp
  from handler_api_recorded [OF assms(1) _ assms(4,5,6) i assms(7), of orderId' totalPaid' d s] assms(3) b
  obtain rows where h: "handler_api P cfg d req s =
           (Inr (Response 200 (SavedJson orderId' (cashbackAmount totalPaid' (cashbackPercent cfg)))),
            log (LogInfo ''Cashback saved:'') (s\<lparr>tableReady := True, lsc_cashback_events := rows\<rparr>))"
    and r: "\<exists>r \<in> set rows. order_id r = orderId' \<and> total_paid r = totalPaid'"
    by auto
  from h show "fst (handler_api P cfg d req s) =
      Inr (Response 200 (SavedJson orderId' (cashbackAmount totalPaid' (cashbackPercent cfg))))"
    by simp
  from h r show "\<exists>r \<in> set (lsc_cashback_events (snd (handler_api P cfg d req s))).
      order_id r = orderId' \<and> total_paid r = totalPaid'"
    by (simp add: log_def)
qed

theorem missing_order_data_soft_skip_witness:
  "handler_part000 test_platform test_config healthy
     (signed_post ''luxem.myshopify.com'' ''orders/paid'' order_1002_zero) empty_server
     = (Inr (Response 200 (Text ''Missing order data'')), empty_server) \<and>
   fst (handler_api test_platform test_config healthy
     (signed_post ''luxem.myshopify.com'' ''orders/paid'' order_1002_zero) empty_server)
     = Inr (Response 200 (SavedJson ''1002'' (cashbackAmount (Fin 0) (cashbackPercent test_config)))) \<and>
   (\<exists>r \<in> set (lsc_cashback_events (snd (handler_api test_platform test_config healthy
        (signed_post ''luxem.myshopify.com'' ''orders/paid'' order_1002_zero) empty_server))).
      order_id r = ''1002'' \<and> total_paid r = Fin 0)"
proof -
  let ?req = "signed_post ''luxem.myshopify.com'' ''orders/paid'' order_1002_zero"
  let ?payload = "JObj [(''id'', JStr ''1002''), (''total_price'', JStr ''0'')]"
  have p: "JSON_parse test_platform (req_body ?req) = Some ?payload"
    by (simp only: signed_post_body parse_1002_zero)
  have d: "toLowerCase (header_or_empty ?req ''x-shopify-shop-domain'') = ALLOWED_SHOPIFY_DOMAIN test_config"
    by (simp only: signed_post_shop lower_test_domain test_config_fields)
  have o1: "orderId_part000 test_platform ?payload = Some ''1002''" by code_simp
  have t1: "totalPaid_part000 test_platform ?payload = Some (Fin 0)" by code_simp
  have g: "''1002'' = [] \<or> \<not> js_gt (Fin 0) (Fin 0)" by (simp add: js_gt_def)
  have o2: "orderId_api test_platform ?payload = Some ''1002''" by code_simp
  have t2: "totalPaid_api test_platform ?payload = Some (Fin 0)" by code_simp
  have f: "fault healthy = NoFault" by (simp add: healthy_def)
  from missing_order_data_soft_skip [OF signed_post_method test_config_fields(2) d
      test_config_fields(1) signed_post_hmac signed_post_topic p,
      of "''1002''" "Fin 0" healthy empty_server "''1002''" "Fin 0"]
    o1 t1 g o2 t2 f
  show ?thesis by blast
qed

section \<open>The order of the checks\<close>

text \<open>
  The claim C5 puts the topic filter before the signature check. In both handlers it comes
  after: a request with an ignored topic is acknowledged when its signature verifies and
  rejected (403, 401) when it does not.
\<close>

theorem gates_counterexample:
  "fst (handler Part000 test_platform test_config healthy
          (signed_post ''luxem.myshopify.com'' ''orders/updated'' order_1001_200) empty_server)
     = Inr (Response 200 (Text ''Ignored topic'')) \<and>
   fst (handler Part000 test_platform test_config healthy
          (forged_post ''luxem.myshopify.com'' ''orders/updated'' order_1001_200) empty_server)
     = Inr (Response 403 (Text ''Forbidden (hmac)'')) \<and>
   fst (handler Api test_platform test_config healthy
          (signed_post ''luxem.myshopify.com'' ''products/update'' order_1001_200) empty_server)
     = Inr (Response 200 (SkippedJson ''Not an orders/paid topic'')) \<and>
   fst (handler Api test_platform test_config healthy
          (forged_post ''luxem.myshopify.com'' ''products/update'' order_1001_200) empty_server)
     = Inr (Response 401 (ErrorJson ''Invalid HMAC''))"
  by code_simp

lemma gate_reject_independent:
  assumes "req_method req \<noteq> ''POST'' \<or> domain_rejected v cfg req"
  shows "handler v P cfg d req s =
         handler v (P\<lparr>hmac_sha256_base64 := f\<rparr>) (cfg\<lparr>SHOPIFY_WEBHOOK_SECRET := k\<rparr>) d
           (req\<lparr>headers := (headers req)(''x-shopify-hmac-sha256'' := h)\<rparr>) s"
proof (cases v)
  case Api
  with assms show ?thesis
    by (auto simp: handler_def handler_api_def handler_api_try_def domain_rejected_def Let_def
        header_or_empty_def)
next
  case Part000
  with assms show ?thesis
    by (auto simp: handler_def handler_part000_def domain_rejected_def Let_def header_or_empty_def)
qed

lemma topic_skip_verified:
  "fst (handler v P cfg d req s) = Inr (topic_skip v) \<longrightarrow>
     SHOPIFY_WEBHOOK_SECRET cfg \<noteq> [] \<and>
     header_or_empty req ''x-shopify-hmac-sha256'' =
       hmac_sha256_base64 P (SHOPIFY_WEBHOOK_SECRET cfg) (req_body req)"
proof (cases v)
  case Api
  then show ?thesis
    apply (simp add: handler_def handler_api_def topic_skip_def)
    apply (simp add: handler_api_try_def Let_def verifyShopifyHmac_def timingSafeEqual_def
        header_or_empty_def sql_insert_def ensureTable_def
        split: sum.split option.split prod.split)
    done
next
  case Part000
  then show ?thesis
    apply (simp add: handler_def topic_skip_def)
    apply (simp add: handler_part000_def Let_def timingSafeEqualStr_eq split: option.split)
    done
qed

text \<open>
  C5, as the code has it. The method check and the source-domain check come before any
  work that depends on the secret: when one of them rejects, the outcome is the same under
  any other secret, signature header and hash function. The topic filter comes after the
  signature check: a handler answers with its ignored-topic response only when the secret
  is configured and the signature header equals the digest of the body.
\<close>

theorem gates_before_and_after_signature:
  "(req_method req \<noteq> ''POST'' \<or> domain_rejected v cfg req \<longrightarrow>
      handler v P cfg d req s =
      handler v (P\<lparr>hmac_sha256_base64 := f\<rparr>) (cfg\<lparr>SHOPIFY_WEBHOOK_SECRET := k\<rparr>) d
        (req\<lparr>headers := (headers req)(''x-shopify-hmac-sha256'' := h)\<rparr>) s) \<and>
   (fst (handler v P cfg d req s) = Inr (topic_skip v) \<longrightarrow>
      SHOPIFY_WEBHOOK_SECRET cfg \<noteq> [] \<and>
      header_or_empty req ''x-shopify-hmac-sha256'' =
        hmac_sha256_base64 P (SHOPIFY_WEBHOOK_SECRET cfg) (req_body req))"
  using gate_reject_independent [of req v cfg P d s f k h] topic_skip_verified [of v P cfg d req s]
  by blast

theorem gates_before_and_after_signature_witness:
  "domain_rejected Part000 test_config (signed_post ''other.example.com'' ''orders/paid'' order_1001_200) \<and>
   handler Part000 test_platform test_config healthy
     (signed_post ''other.example.com'' ''orders/paid'' order_1001_200) empty_server =
   handler Part000 (test_platform\<lparr>hmac_sha256_base64 := (\<lambda>key msg. [])\<rparr>)
     (test_config\<lparr>SHOPIFY_WEBHOOK_SECRET := []\<rparr>) healthy
     ((signed_post ''other.example.com'' ''orders/paid'' order_1001_200)
        \<lparr>headers := (headers (signed_post ''other.example.com'' ''orders/paid'' order_1001_200))
           (''x-shopify-hmac-sha256'' := None)\<rparr>) empty_server \<and>
   fst (handler Part000 test_platform test_config healthy
     (signed_post ''luxem.myshopify.com'' ''orders/updated'' order_1001_200) empty_server)
     = Inr (topic_skip Part000) \<and>
   SHOPIFY_WEBHOOK_SECRET test_config \<noteq> [] \<and>
   header_or_empty (signed_post ''luxem.myshopify.com'' ''orders/updated'' order_1001_200)
     ''x-shopify-hmac-sha256'' =
   hmac_sha256_base64 test_platform (SHOPIFY_WEBHOOK_SECRET test_config)
     (req_body (signed_post ''luxem.myshopify.com'' ''orders/updated'' order_1001_200))"
proof -
  have g: "domain_rejected Part000 test_config (signed_post ''other.example.com'' ''orders/paid'' order_1001_200)"
    by code_simp
  have t: "fst (handler Part000 test_platform test_config healthy
     (signed_post ''luxem.myshopify.com'' ''orders/updated'' order_1001_200) empty_server)
     = Inr (topic_skip Part000)"
    by code_simp
  from gates_before_and_after_signature [of "signed_post ''other.example.com'' ''orders/paid'' order_1001_200"
      Part000 test_config test_platform healthy empty_server "\<lambda>key msg. []" "[]" None] g
  have 1: "handler Part000 test_platform test_config healthy
     (signed_post ''other.example.com'' ''orders/paid'' order_1001_200) empty_server =
   handler Part000 (test_platform\<lparr>hmac_sha256_base64 := (\<lambda>key msg. [])\<rparr>)
     (test_config\<lparr>SHOPIFY_WEBHOOK_SECRET := []\<rparr>) healthy
     ((signed_post ''other.example.com'' ''orders/paid'' order_1001_200)
        \<lparr>headers := (headers (signed_post ''other.example.com'' ''orders/paid'' order_1001_200))
           (''x-shopify-hmac-sha256'' := None)\<rparr>) empty_server"
    by blast
  from gates_before_and_after_signature [of "signed_post ''luxem.myshopify.com'' ''orders/updated'' order_1001_200"
      Part000 test_config test_platform healthy empty_server] t
  have 2: "SHOPIFY_WEBHOOK_SECRET test_config \<noteq> [] \<and>
   header_or_empty (signed_post ''luxem.myshopify.com'' ''orders/updated'' order_1001_200)
     ''x-shopify-hmac-sha256'' =
   hmac_sha256_base64 test_platform (SHOPIFY_WEBHOOK_SECRET test_config)
     (req_body (signed_post ''luxem.myshopify.com'' ''orders/updated'' order_1001_200))"
    by blast
  from g 1 t 2 show ?thesis by blast
qed

section \<open>Malformed bodies\<close>

text \<open>
  The claim C6 asks for 400 on every verified request whose body is not JSON.
  src/api/shopify-orders-paid.js answers 200: the \<open>SyntaxError\<close> of \<open>JSON.parse\<close> is
  caught by the handler's \<open>catch\<close>. src/unnamed/part_000 answers 200 too when the topic
  is one it ignores, since it filters the topic before it parses.
\<close>

theorem malformed_json_counterexample:
  "JSON_parse test_platform malformed_body = None \<and>
   fst (handler_api test_platform test_config healthy
          (signed_post ''luxem.myshopify.com'' ''orders/paid'' malformed_body) empty_server)
     = Inr (Response 200 (ErrorJson ''Logged server error'')) \<and>
   fst (handler_part000 test_platform test_config healthy
          (signed_post ''luxem.myshopify.com'' ''orders/updated'' malformed_body) empty_server)
     = Inr (Response 200 (Text ''Ignored topic''))"
  by code_simp

text \<open>
  C6, as the code has it. For every verified POST from the allowed domain whose body is not
  well-formed JSON, nothing is persisted, and: src/unnamed/part_000 answers 400
  (\<open>Bad JSON\<close>) when the topic is \<open>orders/paid\<close> and 200 (\<open>Ignored topic\<close>) otherwise;
  src/api/shopify-orders-paid.js logs the error and answers 200
  \<open>{ok: false, error: "Logged server error"}\<close>.
\<close>

theorem malformed_json_outcomes:
  assumes "req_method req = ''POST''"
    and "ALLOWED_SHOPIFY_DOMAIN cfg \<noteq> []"
    and "toLowerCase (header_or_empty req ''x-shopify-shop-domain'') = ALLOWED_SHOPIFY_DOMAIN cfg"
    and "SHOPIFY_WEBHOOK_SECRET cfg \<noteq> []"
    and "headers req ''x-shopify-hmac-sha256'' =
         Some (hmac_sha256_base64 P (SHOPIFY_WEBHOOK_SECRET cfg) (req_body req))"
    and "JSON_parse P (req_body req) = None"
  shows "handler_part000 P cfg d req s =
           (Inr (if toLowerCase (header_or_empty req ''x-shopify-topic'') = ''orders/paid''
                 then Response 400 (Text ''Bad JSON'') else Response 200 (Text ''Ignored topic'')), s) \<and>
         handler_api P cfg d req s =
           (Inr (Response 200 (ErrorJson ''Logged server error'')), log (LogError ''Webhook error:'') s)"
proof
  have "header_or_empty req ''x-shopify-hmac-sha256'' =
          hmac_sha256_base64 P (SHOPIFY_WEBHOOK_SECRET cfg) (req_body req)"
    using assms(5) by (simp add: header_or_empty_def)
  then show "handler_part000 P cfg d req s =
           (Inr (if toLowerCase (header_or_empty req ''x-shopify-topic'') = ''orders/paid''
                 then Response 400 (Text ''Bad JSON'') else Response 200 (Text ''Ignored topic'')), s)"
    using assms(1,2,3,4,6) by (simp add: handler_part000_def Let_def timingSafeEqualStr_eq)
next
  have "verifyShopifyHmac P cfg (req_body req) (headers req ''x-shopify-hmac-sha256'') = Inr True"
    using assms(4,5) by (simp add: verifyShopifyHmac_def timingSafeEqual_def)
  then have "handler_api_try P cfg d req s = (Inl SyntaxError, s)"
    using assms(3,6) by (simp add: handler_api_try_def Let_def)
  then show "handler_api P cfg d req s =
           (Inr (Response 200 (ErrorJson ''Logged server error'')), log (LogError ''Webhook error:'') s)"
    using assms(1) by (simp add: handler_api_def)
qed

theorem malformed_json_outcomes_witness:
  "handler_part000 test_platform test_config healthy
     (signed_post ''luxem.myshopify.com'' ''orders/paid'' malformed_body) empty_server =
     (Inr (if toLowerCase (header_or_empty (signed_post ''luxem.myshopify.com'' ''orders/paid'' malformed_body)
                ''x-shopify-topic'') = ''orders/paid''
           then Response 400 (Text ''Bad JSON'') else Response 200 (Text ''Ignored topic'')), empty_server) \<and>
   handler_api test_platform test_config healthy
     (signed_post ''luxem.myshopify.com'' ''orders/paid'' malformed_body) empty_server =
     (Inr (Response 200 (ErrorJson ''Logged server error'')), log (LogError ''Webhook error:'') empty_server)"
proof -
  let ?req = "signed_post ''luxem.myshopify.com'' ''orders/paid'' malformed_body"
  have p: "JSON_parse test_platform (req_body ?req) = None"
    by (simp only: signed_post_body parse_malformed)
  have d: "toLowerCase (header_or_empty ?req ''x-shopify-shop-domain'') = ALLOWED_SHOPIFY_DOMAIN test_config"
    by (simp only: signed_post_shop lower_test_domain test_config_fields)
  show ?thesis
    by (rule malformed_json_outcomes [OF signed_post_method test_config_fields(2) d
          test_config_fields(1) signed_post_hmac p])
qed

section \<open>The rounding to binary64\<close>

text \<open>
  The exponent found by \<open>ilog2\<close> is the binary exponent, and a finite result of
  \<open>float_round\<close> is within half a unit in the last place of the exact value: the rounding
  is the one of IEEE-754 arithmetic.
\<close>

lemma pow2_nonneg: "0 \<le> k \<Longrightarrow> pow2 k = 2 ^ nat k"
  by (simp add: pow2_def)

lemma pow2_nonpos: "k \<le> 0 \<Longrightarrow> pow2 k = 1 / 2 ^ nat (- k)"
  by (cases "k = 0") (simp_all add: pow2_def)

lemma ilog2_bounds:
  assumes "0 < a"
  shows "pow2 (ilog2 a) \<le> a \<and> a < pow2 (ilog2 a + 1)"
proof (cases "1 \<le> a")
  case True
  define m where "m = \<lfloor>a\<rfloor>"
  define k where "k = bitlen m"
  have m: "0 < m" using True by (simp add: m_def)
  from bitlen_bounds [OF m] have lo: "2 ^ nat (k - 1) \<le> m" and hi: "m < 2 ^ nat k"
    by (simp_all add: k_def)
  have k1: "1 \<le> k" using m bitlen_eq_zero_iff [of m] bitlen_nonneg [of m] unfolding k_def by linarith
  have e: "ilog2 a = k - 1" using True by (simp add: ilog2_def k_def m_def)
  have "(2::rat) ^ nat (k - 1) = of_int (2 ^ nat (k - 1))" by simp
  also have "\<dots> \<le> of_int m" using lo by (simp only: of_int_le_iff)
  also have "\<dots> \<le> a" by (simp add: m_def)
  finally have 1: "pow2 (k - 1) \<le> a" using k1 by (simp add: pow2_nonneg)
  have "m + 1 \<le> 2 ^ nat k" using hi by simp
  then have "(of_int (m + 1) :: rat) \<le> of_int (2 ^ nat k)" by (simp only: of_int_le_iff)
  moreover have "a < of_int (m + 1)" unfolding m_def by linarith
  ultimately have "a < 2 ^ nat k" by simp
  then have 2: "a < pow2 (k - 1 + 1)" using k1 by (simp add: pow2_nonneg)
  from 1 2 e show ?thesis by simp
next
  case False
  define b where "b = 1 / a"
  define n where "n = \<lceil>b\<rceil> - 1"
  define k where "k = bitlen n"
  have b1: "1 < b" using False assms by (simp add: b_def)
  then have n: "0 < n" unfolding n_def by linarith
  from bitlen_bounds [OF n] have lo: "2 ^ nat (k - 1) \<le> n" and hi: "n < 2 ^ nat k"
    by (simp_all add: k_def)
  have k1: "1 \<le> k" using n bitlen_eq_zero_iff [of n] bitlen_nonneg [of n] unfolding k_def by linarith
  have e: "ilog2 a = - k" using False by (simp add: ilog2_def k_def n_def b_def)
  have ab: "a = 1 / b" using assms by (simp add: b_def)
  have "n + 1 \<le> 2 ^ nat k" using hi by simp
  then have "(of_int (n + 1) :: rat) \<le> of_int (2 ^ nat k)" by (simp only: of_int_le_iff)
  moreover have "b \<le> of_int (n + 1)" unfolding n_def by linarith
  ultimately have bh: "b \<le> 2 ^ nat k" by simp
  have "(2::rat) ^ nat (k - 1) = of_int (2 ^ nat (k - 1))" by simp
  also have "\<dots> \<le> of_int n" using lo by (simp only: of_int_le_iff)
  also have "\<dots> < b" unfolding n_def by linarith
  finally have bl: "2 ^ nat (k - 1) < b" .
  have 1: "pow2 (- k) \<le> a"
  proof -
    have "1 / 2 ^ nat k \<le> 1 / b" using bh b1 by (simp add: frac_le)
    then show ?thesis using k1 by (simp add: pow2_nonpos ab)
  qed
  have 2: "a < pow2 (- k + 1)"
  proof -
    have "1 / b < 1 / 2 ^ nat (k - 1)" using bl by (simp add: frac_less2)
    moreover have "nat (- (- k + 1)) = nat (k - 1)" by simp
    ultimately show ?thesis using k1 by (simp add: pow2_nonpos ab)
  qed
  from 1 2 e show ?thesis by simp
qed

lemma pow2_powi: "pow2 e = 2 powi e"
  by (simp add: pow2_def power_int_def power_one_over)

lemma pow2_pos: "0 < pow2 e"
  by (simp add: pow2_powi)

lemma pow2_add: "pow2 (i + j) = pow2 i * pow2 j"
  by (simp add: pow2_powi power_int_add)

lemma round_half_even_near: "\<bar>of_int (round_half_even r) - r\<bar> \<le> 1 / 2"
proof -
  have "of_int \<lfloor>r\<rfloor> \<le> r" and "r < of_int \<lfloor>r\<rfloor> + 1"
    by linarith+
  then show ?thesis
    unfolding round_half_even_def Let_def by (auto simp: abs_le_iff)
qed

lemma pow2_inv: "pow2 (52 - e) * pow2 (e - 52) = 1"
  using pow2_add [of "52 - e" "e - 52"] by (simp add: pow2_powi)

lemma pow2_half: "pow2 (e - 52) / 2 = pow2 (e - 53)"
  using pow2_add [of "e - 53" 1] by (simp add: pow2_powi)

lemma float_round_half_ulp:
  assumes "float_round x = Fin y" and "x \<noteq> 0"
  shows "\<bar>y - x\<bar> \<le> pow2 (max (ilog2 \<bar>x\<bar>) (- 1022) - 53)"
proof -
  define e where "e = max (ilog2 \<bar>x\<bar>) (- 1022)"
  define n where "n = round_half_even (\<bar>x\<bar> * pow2 (52 - e))"
  define q where "q = pow2 (e - 52)"
  have y: "y = sgn x * (of_int n * q)"
    using assms by (simp add: float_round_def Let_def e_def n_def q_def split: if_splits)
  have q: "0 < q" unfolding q_def by (rule pow2_pos)
  have one: "pow2 (52 - e) * q = 1"
    unfolding q_def by (rule pow2_inv)
  have half: "q / 2 = pow2 (e - 53)"
    unfolding q_def by (rule pow2_half)
  have "\<bar>of_int n - \<bar>x\<bar> * pow2 (52 - e)\<bar> \<le> 1 / 2"
    unfolding n_def by (rule round_half_even_near)
  then have "\<bar>of_int n - \<bar>x\<bar> * pow2 (52 - e)\<bar> * q \<le> 1 / 2 * q"
    using q by (simp only: mult_le_cancel_right_pos)
  moreover have "\<bar>of_int n - \<bar>x\<bar> * pow2 (52 - e)\<bar> * q = \<bar>of_int n * q - \<bar>x\<bar>\<bar>"
  proof -
    have "\<bar>of_int n - \<bar>x\<bar> * pow2 (52 - e)\<bar> * q = \<bar>(of_int n - \<bar>x\<bar> * pow2 (52 - e)) * q\<bar>"
      using q by (simp add: abs_mult)
    also have "(of_int n - \<bar>x\<bar> * pow2 (52 - e)) * q = of_int n * q - \<bar>x\<bar> * (pow2 (52 - e) * q)"
      by (simp only: left_diff_distrib mult.assoc)
    finally show ?thesis by (simp only: one mult_1_right)
  qed
  ultimately have "\<bar>of_int n * q - \<bar>x\<bar>\<bar> \<le> pow2 (e - 53)"
    using half by simp
  moreover have "\<bar>y - x\<bar> = \<bar>of_int n * q - \<bar>x\<bar>\<bar>"
  proof (cases "0 < x")
    case True
    then show ?thesis by (simp add: y)
  next
    case False
    with assms(2) have "x < 0" by simp
    then have "y - x = - (of_int n * q - \<bar>x\<bar>)" by (simp add: y)
    then show ?thesis by (simp only: abs_minus_cancel)
  qed
  ultimately show ?thesis by (simp add: e_def)
qed

lemma float_round_tenth: "float_round (1 / 10) = Fin (3602879701896397 / 36028797018963968)"
  by code_simp

text \<open>
  The exponent is monotone, so a value below \<open>2 ^ 1023\<close> in magnitude rounds to a finite
  number, and from the smallest normal number on the rounding error is at most
  \<open>2 ^ -53\<close> of the value.
\<close>

lemma pow2_mono: "i \<le> j \<Longrightarrow> pow2 i \<le> pow2 j"
  by (simp add: pow2_powi power_int_increasing)

lemma pow2_less_exp: "pow2 i < pow2 j \<Longrightarrow> i < j"
  using pow2_mono [of j i] by (cases "i < j") auto

lemma ilog2_less:
  assumes "0 < a" and "a < pow2 k"
  shows "ilog2 a < k"
proof -
  from ilog2_bounds [OF assms(1)] assms(2) have "pow2 (ilog2 a) < pow2 k" by linarith
  then show ?thesis by (rule pow2_less_exp)
qed

lemma ilog2_ge:
  assumes "pow2 k \<le> a"
  shows "k \<le> ilog2 a"
proof -
  have a: "0 < a" using pow2_pos [of k] assms by linarith
  from ilog2_bounds [OF a] assms have "pow2 k < pow2 (ilog2 a + 1)" by linarith
  then have "k < ilog2 a + 1" by (rule pow2_less_exp)
  then show ?thesis by simp
qed

lemma float_round_finite:
  assumes "\<bar>z\<bar> < pow2 1023"
  shows "\<exists>y. float_round z = Fin y"
proof (cases "z = 0")
  case True
  then show ?thesis by (simp add: float_round_def)
next
  case False
  define e where "e = max (ilog2 \<bar>z\<bar>) (- 1022)"
  from False have "0 < \<bar>z\<bar>" by simp
  from ilog2_less [OF this assms] have e: "e < 1023" by (simp add: e_def)
  have "float_round z =
      (if 1024 \<le> e \<or> (e = 1023 \<and> 2 ^ 53 \<le> round_half_even (\<bar>z\<bar> * pow2 (52 - e)))
       then (if 0 < z then PInf else NInf)
       else Fin (sgn z * (of_int (round_half_even (\<bar>z\<bar> * pow2 (52 - e))) * pow2 (e - 52))))"
    by (simp only: float_round_def Let_def False if_False e_def)
  with e show ?thesis by simp
qed

lemma float_round_relative:
  assumes "float_round z = Fin y" and "pow2 (- 1022) \<le> \<bar>z\<bar>"
  shows "\<bar>y - z\<bar> \<le> \<bar>z\<bar> / 2 ^ 53"
proof -
  have p: "0 < \<bar>z\<bar>" using pow2_pos [of "- 1022"] assms(2) by linarith
  then have z: "z \<noteq> 0" by simp
  from ilog2_ge [OF assms(2)] have m: "max (ilog2 \<bar>z\<bar>) (- 1022) = ilog2 \<bar>z\<bar>" by simp
  have "\<bar>y - z\<bar> \<le> pow2 (ilog2 \<bar>z\<bar> - 53)"
    using float_round_half_ulp [OF assms(1) z] by (simp only: m)
  also have "pow2 (ilog2 \<bar>z\<bar> - 53) = pow2 (ilog2 \<bar>z\<bar>) * pow2 (- 53)"
    using pow2_add [of "ilog2 \<bar>z\<bar>" "- 53"] by simp
  also have "pow2 (- 53) = 1 / 2 ^ 53" by (simp add: pow2_def)
  also have "pow2 (ilog2 \<bar>z\<bar>) * (1 / 2 ^ 53) \<le> \<bar>z\<bar> * (1 / 2 ^ 53)"
    by (intro mult_right_mono) (use ilog2_bounds [OF p] in simp_all)
  finally show ?thesis by simp
qed

section \<open>The cashback amount\<close>

text \<open>
  The claim C7 reads the amount as \<open>round(total_paid \<times> percent / 100, 2)\<close>, with halves
  rounded up or to even. The code computes in binary64. For a paid amount of 21.5 at the
  default 5 percent the exact product is 1.075, which both rules round to 1.08; but
  \<open>5 / 100\<close> is the binary64 number just above 0.05, its product with 21.5 rounds to the
  binary64 number just below 1.075, and \<open>toFixed(2)\<close> prints 1.07.
\<close>

theorem cashback_rounding_counterexample:
  "cashbackAmount (Fin (43 / 2)) (Fin 5) = float_round (107 / 100) \<and>
   spec_round_half_up (43 / 2 * 5 / 100) = 108 / 100 \<and>
   spec_round_bankers (43 / 2 * 5 / 100) = 108 / 100 \<and>
   float_round (107 / 100) \<noteq> float_round (108 / 100)"
  by code_simp

lemma round_half_away_near: "\<bar>of_int (round_half_away r) - r\<bar> \<le> 1 / 2"
proof (cases "0 \<le> r")
  case True
  then have e: "round_half_away r = \<lfloor>r + 1 / 2\<rfloor>"
    by (simp add: round_half_away_def)
  have "of_int \<lfloor>r + 1 / 2\<rfloor> \<le> r + 1 / 2" and "r + 1 / 2 < of_int \<lfloor>r + 1 / 2\<rfloor> + 1"
    by linarith+
  then show ?thesis
    unfolding e by linarith
next
  case False
  then have e: "round_half_away r = - \<lfloor>- r + 1 / 2\<rfloor>"
    by (simp add: round_half_away_def)
  have "of_int \<lfloor>- r + 1 / 2\<rfloor> \<le> - r + 1 / 2" and "- r + 1 / 2 < of_int \<lfloor>- r + 1 / 2\<rfloor> + 1"
    by linarith+
  then show ?thesis
    unfolding e of_int_minus by linarith
qed

text \<open>
  \<open>round_half_away\<close> gives an integer nearest to its argument, and of two nearest integers
  the one of larger magnitude. \<open>toFixed2\<close> of a finite number below \<open>10 ^ 21\<close> is finite,
  and within \<open>2 ^ -53\<close> (relative) of the decimal with two places that it reads back.
\<close>

lemma of_int_le_pred: "m \<le> n - 1 \<Longrightarrow> (of_int m :: rat) \<le> of_int n - 1"
proof -
  assume "m \<le> n - 1"
  then have "(of_int m :: rat) \<le> of_int (n - 1)" by (simp only: of_int_le_iff)
  then show ?thesis by simp
qed

lemma of_int_ge_succ: "n + 1 \<le> m \<Longrightarrow> (of_int n :: rat) + 1 \<le> of_int m"
proof -
  assume "n + 1 \<le> m"
  then have "(of_int (n + 1) :: rat) \<le> of_int m" by (simp only: of_int_le_iff)
  then show ?thesis by simp
qed

lemma round_half_away_nearest:
  "\<bar>of_int (round_half_away r) - r\<bar> \<le> \<bar>of_int m - r\<bar>"
proof -
  define n where "n = round_half_away r"
  have near: "\<bar>of_int n - r\<bar> \<le> 1 / 2"
    unfolding n_def by (rule round_half_away_near)
  consider "m = n" | "m \<le> n - 1" | "n + 1 \<le> m" by linarith
  then have "\<bar>of_int n - r\<bar> \<le> \<bar>of_int m - r\<bar>"
  proof cases
    case 1
    then show ?thesis by simp
  next
    case 2
    from of_int_le_pred [OF 2] near show ?thesis by linarith
  next
    case 3
    from of_int_ge_succ [OF 3] near show ?thesis by linarith
  qed
  then show ?thesis by (simp only: n_def)
qed

lemma round_half_away_tie:
  assumes "\<bar>of_int m - r\<bar> = \<bar>of_int (round_half_away r) - r\<bar>"
  shows "\<bar>m\<bar> \<le> \<bar>round_half_away r\<bar>"
proof (cases "0 \<le> r")
  case True
  define n where "n = \<lfloor>r + 1 / 2\<rfloor>"
  have e: "round_half_away r = n" using True by (simp add: round_half_away_def n_def)
  have f: "of_int n \<le> r + 1 / 2" "r + 1 / 2 < of_int n + 1"
    unfolding n_def by linarith+
  from assms have a: "\<bar>of_int m - r\<bar> = \<bar>of_int n - r\<bar>" by (simp only: e)
  consider "m = n" | "m \<le> n - 1" | "n + 1 \<le> m" by linarith
  then have "\<bar>m\<bar> \<le> \<bar>n\<bar>"
  proof cases
    case 1
    then show ?thesis by simp
  next
    case 2
    from of_int_le_pred [OF 2] a f have "(of_int m :: rat) = of_int n - 1 \<and> of_int n = r + 1 / 2"
      by linarith
    with True have "(- 1 :: rat) < of_int m" by linarith
    then have "(of_int (- 1) :: rat) < of_int m" by simp
    then have "- 1 < m" by (simp only: of_int_less_iff)
    with 2 show ?thesis by linarith
  next
    case 3
    from of_int_ge_succ [OF 3] a f have False by linarith
    then show ?thesis ..
  qed
  then show ?thesis by (simp only: e)
next
  case False
  define n where "n = \<lfloor>- r + 1 / 2\<rfloor>"
  have e: "round_half_away r = - n" using False by (simp add: round_half_away_def n_def)
  have f: "of_int n \<le> - r + 1 / 2" "- r + 1 / 2 < of_int n + 1"
    unfolding n_def by linarith+
  from assms have a: "\<bar>of_int m - r\<bar> = \<bar>- of_int n - r\<bar>" by (simp only: e of_int_minus)
  consider "- m = n" | "- m \<le> n - 1" | "n + 1 \<le> - m" by linarith
  then have "\<bar>m\<bar> \<le> \<bar>n\<bar>"
  proof cases
    case 1
    then show ?thesis by linarith
  next
    case 2
    from of_int_le_pred [OF 2] have "- (of_int m :: rat) \<le> of_int n - 1" by simp
    with a f have "- (of_int m :: rat) = of_int n - 1 \<and> of_int n = - r + 1 / 2"
      by linarith
    with False have "(of_int m :: rat) < 1" by linarith
    then have "(of_int m :: rat) < of_int 1" by simp
    then have "m < 1" by (simp only: of_int_less_iff)
    with 2 show ?thesis by linarith
  next
    case 3
    from of_int_ge_succ [OF 3] have "(of_int n :: rat) + 1 \<le> - of_int m" by simp
    with a f have False by linarith
    then show ?thesis ..
  qed
  then show ?thesis by (simp only: e abs_minus_cancel)
qed


lemma cent_not_subnormal:
  assumes "n \<noteq> 0"
  shows "pow2 (- 1022) \<le> \<bar>of_int n / 100 :: rat\<bar>"
proof -
  from assms have "1 \<le> \<bar>n\<bar>" by linarith
  then have "(of_int 1 :: rat) \<le> of_int \<bar>n\<bar>" by (simp only: of_int_le_iff)
  then have "(1 :: rat) / 100 \<le> \<bar>of_int n / 100\<bar>" by simp
  moreover have "pow2 (- 1022) \<le> pow2 (- 7)" by (rule pow2_mono) simp
  moreover have "pow2 (- 7) \<le> 1 / 100" by (simp add: pow2_def)
  ultimately show ?thesis by linarith
qed

lemma toFixed2_value:
  assumes "\<bar>x\<bar> < 10 ^ 21"
  shows "\<exists>y. toFixed2 (Fin x) = Fin y \<and>
           \<bar>y - of_int (round_half_away (x * 100)) / 100\<bar>
             \<le> \<bar>of_int (round_half_away (x * 100)) / 100\<bar> / 2 ^ 53"
proof -
  define n where "n = round_half_away (x * 100)"
  define z :: rat where "z = of_int n / 100"
  have t: "toFixed2 (Fin x) = float_round z"
    using assms by (simp add: toFixed2_def n_def z_def)
  have "\<bar>of_int n - x * 100\<bar> \<le> 1 / 2"
    unfolding n_def by (rule round_half_away_near)
  then have "\<bar>z - x\<bar> \<le> 1 / 200" unfolding z_def by linarith
  with assms have "\<bar>z\<bar> < 10 ^ 21 + 1" by linarith
  moreover have "(10 :: rat) ^ 21 + 1 < pow2 70" by (simp add: pow2_def)
  moreover have "pow2 70 \<le> pow2 1023" by (rule pow2_mono) simp
  ultimately have "\<bar>z\<bar> < pow2 1023" by linarith
  from float_round_finite [OF this] obtain y where y: "float_round z = Fin y" ..
  have "\<bar>y - z\<bar> \<le> \<bar>z\<bar> / 2 ^ 53"
  proof (cases "n = 0")
    case True
    with y show ?thesis by (simp add: z_def float_round_def)
  next
    case False
    from cent_not_subnormal [OF False] show ?thesis
      unfolding z_def [symmetric] by (rule float_round_relative [OF y])
  qed
  with t y show ?thesis unfolding z_def n_def by simp
qed

lemma cashbackPercent_unset:
  "env_LSC_CASHBACK_PERCENT e = None \<or> env_LSC_CASHBACK_PERCENT e = Some [] \<Longrightarrow>
   cashbackPercent (load_config P e) = Fin 5"
  by (auto simp: cashbackPercent_def load_config_def isFinite_def)

lemma row_calculated_insert_do_update:
  assumes "row_calculated cfg new" and "\<forall>r \<in> set rows. row_calculated cfg r"
  shows "\<forall>r \<in> set (insert_do_update new rows). row_calculated cfg r"
  using assms by (auto simp: insert_do_update_def row_calculated_def)

lemma row_calculated_insert_do_nothing:
  assumes "row_calculated cfg new" and "\<forall>r \<in> set rows. row_calculated cfg r"
  shows "\<forall>r \<in> set (insert_do_nothing new rows). row_calculated cfg r"
  using assms by (auto simp: insert_do_nothing_def)

lemma handler_api_try_rows_via:
  assumes "Q (lsc_cashback_events s)"
    and "\<And>new. row_calculated cfg new \<Longrightarrow> Q (insert_do_update new (lsc_cashback_events s))"
  shows "Q (lsc_cashback_events (snd (handler_api_try P cfg d req s)))"
  using assms(1)
  by (auto simp: handler_api_try_def Let_def sql_insert_def ensureTable_def row_calculated_def
      intro!: assms(2) split: sum.splits option.splits if_splits)

lemma handler_api_rows_via:
  assumes "Q (lsc_cashback_events s)"
    and "\<And>new. row_calculated cfg new \<Longrightarrow> Q (insert_do_update new (lsc_cashback_events s))"
  shows "Q (lsc_cashback_events (snd (handler_api P cfg d req s)))"
  using handler_api_try_rows_via [of Q s cfg P d req, OF assms] assms(1)
  by (auto simp: handler_api_def split: prod.splits sum.splits)

lemma handler_part000_rows_via:
  assumes "Q (lsc_cashback_events s)"
    and "\<And>new. row_calculated cfg new \<Longrightarrow> Q (insert_do_nothing new (lsc_cashback_events s))"
  shows "Q (lsc_cashback_events (snd (handler_part000 P cfg d req s)))"
  using assms(1)
  by (auto simp: handler_part000_def record_part000_def Let_def timingSafeEqualStr_eq
      sql_insert_def ensureTable_def row_calculated_def
      intro!: assms(2) split: sum.splits option.splits if_splits)

lemma handler_row_calculated:
  assumes "\<forall>r \<in> set (lsc_cashback_events s). row_calculated cfg r"
  shows "\<forall>r \<in> set (lsc_cashback_events (snd (handler v P cfg d req s))). row_calculated cfg r"
proof (cases v)
  case Api
  have "\<forall>r \<in> set (lsc_cashback_events (snd (handler_api P cfg d req s))). row_calculated cfg r"
    by (rule handler_api_rows_via [where cfg = cfg])
      (use assms row_calculated_insert_do_update in blast)+
  with Api show ?thesis by (simp add: handler_def)
next
  case Part000
  have "\<forall>r \<in> set (lsc_cashback_events (snd (handler_part000 P cfg d req s))). row_calculated cfg r"
    by (rule handler_part000_rows_via [where cfg = cfg])
      (use assms row_calculated_insert_do_nothing in blast)+
  with Part000 show ?thesis by (simp add: handler_def)
qed

lemma deliver_all_row_calculated:
  "\<forall>r \<in> set (lsc_cashback_events s). row_calculated cfg r \<Longrightarrow>
   \<forall>r \<in> set (lsc_cashback_events (deliver_all P cfg ds s)). row_calculated cfg r"
proof (induction ds arbitrary: s)
  case Nil
  then show ?case by simp
next
  case (Cons x ds)
  obtain v d req where x: "x = (v, d, req)" by (cases x) auto
  from Cons.prems have "\<forall>r \<in> set (lsc_cashback_events (snd (handler v P cfg d req s))). row_calculated cfg r"
    by (rule handler_row_calculated)
  then show ?case unfolding x deliver_all.simps by (rule Cons.IH)
qed

text \<open>
  C7, as the code has it. The amount is a function of the paid amount and the percent
  alone, computed in binary64. Let \<open>x\<close> be the binary64 product \<open>totalPaid * (pct / 100)\<close>,
  finite and below \<open>10 ^ 21\<close> in magnitude, and \<open>n\<close> the integer that \<open>toFixed(2)\<close> prints as
  \<open>n / 100\<close>. Then \<open>n\<close> is an integer nearest to \<open>100 * x\<close>: no integer is nearer, and an
  integer as near is not larger in magnitude (halves go away from zero); so \<open>n / 100\<close> is
  within half a cent of \<open>x\<close>, not always of the exact product. The amount is the binary64
  number nearest to \<open>n / 100\<close>: it is finite, within \<open>2 ^ -53\<close> (relative) of \<open>n / 100\<close>, hence
  within half a cent plus that error of \<open>x\<close>. The percent used is always finite: it is 5
  whenever the configured number is not finite, the configured number otherwise, and 5
  when the environment variable is unset or empty. Every row that a handler writes stores
  that percent and the amount calculated from the row's \<open>total_paid\<close> and that percent.
\<close>

theorem cashback_is_binary64_toFixed:
  "(js_mul totalPaid (js_div pct (Fin 100)) = Fin x \<and> \<bar>x\<bar> < 10 ^ 21 \<longrightarrow>
      cashbackAmount totalPaid pct = float_round (of_int (round_half_away (x * 100)) / 100) \<and>
      (\<forall>m. \<bar>of_int (round_half_away (x * 100)) - x * 100\<bar> \<le> \<bar>of_int m - x * 100\<bar>) \<and>
      (\<forall>m. \<bar>of_int m - x * 100\<bar> = \<bar>of_int (round_half_away (x * 100)) - x * 100\<bar> \<longrightarrow>
            \<bar>m\<bar> \<le> \<bar>round_half_away (x * 100)\<bar>) \<and>
      \<bar>of_int (round_half_away (x * 100)) - x * 100\<bar> \<le> 1 / 2 \<and>
      (\<exists>y. cashbackAmount totalPaid pct = Fin y \<and>
           \<bar>y - of_int (round_half_away (x * 100)) / 100\<bar>
             \<le> \<bar>of_int (round_half_away (x * 100)) / 100\<bar> / 2 ^ 53 \<and>
           \<bar>y - x\<bar> \<le> 1 / 200 + \<bar>of_int (round_half_away (x * 100)) / 100\<bar> / 2 ^ 53)) \<and>
   isFinite (cashbackPercent cfg) \<and>
   (\<not> isFinite (LSC_CASHBACK_PERCENT cfg) \<longrightarrow> cashbackPercent cfg = Fin 5) \<and>
   (isFinite (LSC_CASHBACK_PERCENT cfg) \<longrightarrow> cashbackPercent cfg = LSC_CASHBACK_PERCENT cfg) \<and>
   (env_LSC_CASHBACK_PERCENT e = None \<or> env_LSC_CASHBACK_PERCENT e = Some [] \<longrightarrow>
      cashbackPercent (load_config P e) = Fin 5) \<and>
   (list_all (row_calculated cfg) (lsc_cashback_events s) \<longrightarrow>
      list_all (row_calculated cfg) (lsc_cashback_events (deliver_all P cfg ds s)))"
proof -
  have 1: "js_mul totalPaid (js_div pct (Fin 100)) = Fin x \<and> \<bar>x\<bar> < 10 ^ 21 \<longrightarrow>
      cashbackAmount totalPaid pct = float_round (of_int (round_half_away (x * 100)) / 100) \<and>
      (\<forall>m. \<bar>of_int (round_half_away (x * 100)) - x * 100\<bar> \<le> \<bar>of_int m - x * 100\<bar>) \<and>
      (\<forall>m. \<bar>of_int m - x * 100\<bar> = \<bar>of_int (round_half_away (x * 100)) - x * 100\<bar> \<longrightarrow>
            \<bar>m\<bar> \<le> \<bar>round_half_away (x * 100)\<bar>) \<and>
      \<bar>of_int (round_half_away (x * 100)) - x * 100\<bar> \<le> 1 / 2 \<and>
      (\<exists>y. cashbackAmount totalPaid pct = Fin y \<and>
           \<bar>y - of_int (round_half_away (x * 100)) / 100\<bar>
             \<le> \<bar>of_int (round_half_away (x * 100)) / 100\<bar> / 2 ^ 53 \<and>
           \<bar>y - x\<bar> \<le> 1 / 200 + \<bar>of_int (round_half_away (x * 100)) / 100\<bar> / 2 ^ 53)"
  proof (intro impI, elim conjE)
    assume m: "js_mul totalPaid (js_div pct (Fin 100)) = Fin x" and b: "\<bar>x\<bar> < 10 ^ 21"
    define n where "n = round_half_away (x * 100)"
    have c: "cashbackAmount totalPaid pct = toFixed2 (Fin x)"
      by (simp only: cashbackAmount_def m)
    have a: "cashbackAmount totalPaid pct = float_round (of_int n / 100)"
      using b by (simp add: c toFixed2_def n_def)
    have near: "\<bar>of_int n - x * 100\<bar> \<le> 1 / 2"
      unfolding n_def by (rule round_half_away_near)
    have nearest: "\<forall>m. \<bar>of_int n - x * 100\<bar> \<le> \<bar>of_int m - x * 100\<bar>"
      unfolding n_def by (intro allI round_half_away_nearest)
    have tie: "\<forall>m. \<bar>of_int m - x * 100\<bar> = \<bar>of_int n - x * 100\<bar> \<longrightarrow> \<bar>m\<bar> \<le> \<bar>n\<bar>"
      unfolding n_def by (intro allI impI round_half_away_tie)
    from toFixed2_value [OF b] obtain y where
      y: "toFixed2 (Fin x) = Fin y" "\<bar>y - of_int n / 100\<bar> \<le> \<bar>of_int n / 100\<bar> / 2 ^ 53"
      unfolding n_def by blast
    from near have "\<bar>of_int n / 100 - x\<bar> \<le> 1 / 200" by linarith
    with y(2) have "\<bar>y - x\<bar> \<le> 1 / 200 + \<bar>of_int n / 100\<bar> / 2 ^ 53" by linarith
    with y c have "\<exists>y. cashbackAmount totalPaid pct = Fin y \<and>
        \<bar>y - of_int n / 100\<bar> \<le> \<bar>of_int n / 100\<bar> / 2 ^ 53 \<and>
        \<bar>y - x\<bar> \<le> 1 / 200 + \<bar>of_int n / 100\<bar> / 2 ^ 53"
      by simp
    with a nearest tie near
    show "cashbackAmount totalPaid pct = float_round (of_int (round_half_away (x * 100)) / 100) \<and>
      (\<forall>m. \<bar>of_int (round_half_away (x * 100)) - x * 100\<bar> \<le> \<bar>of_int m - x * 100\<bar>) \<and>
      (\<forall>m. \<bar>of_int m - x * 100\<bar> = \<bar>of_int (round_half_away (x * 100)) - x * 100\<bar> \<longrightarrow>
            \<bar>m\<bar> \<le> \<bar>round_half_away (x * 100)\<bar>) \<and>
      \<bar>of_int (round_half_away (x * 100)) - x * 100\<bar> \<le> 1 / 2 \<and>
      (\<exists>y. cashbackAmount totalPaid pct = Fin y \<and>
           \<bar>y - of_int (round_half_away (x * 100)) / 100\<bar>
             \<le> \<bar>of_int (round_half_away (x * 100)) / 100\<bar> / 2 ^ 53 \<and>
           \<bar>y - x\<bar> \<le> 1 / 200 + \<bar>of_int (round_half_away (x * 100)) / 100\<bar> / 2 ^ 53)"
      unfolding n_def by blast
  qed
  have 2: "isFinite (cashbackPercent cfg) \<and>
      (\<not> isFinite (LSC_CASHBACK_PERCENT cfg) \<longrightarrow> cashbackPercent cfg = Fin 5) \<and>
      (isFinite (LSC_CASHBACK_PERCENT cfg) \<longrightarrow> cashbackPercent cfg = LSC_CASHBACK_PERCENT cfg)"
    by (simp add: cashbackPercent_def isFinite_def)
  have 3: "env_LSC_CASHBACK_PERCENT e = None \<or> env_LSC_CASHBACK_PERCENT e = Some [] \<longrightarrow>
      cashbackPercent (load_config P e) = Fin 5"
    using cashbackPercent_unset [of e P] by blast
  have 4: "list_all (row_calculated cfg) (lsc_cashback_events s) \<longrightarrow>
      list_all (row_calculated cfg) (lsc_cashback_events (deliver_all P cfg ds s))"
    using deliver_all_row_calculated [of s cfg P ds] by (simp add: list_all_iff)
  from 1 2 3 4 show ?thesis by blast
qed

text \<open>
  A tie: 2.5 at 5 percent. The binary64 product is exactly 0.125, so \<open>100 * x\<close> is 12.5,
  halfway between 12 and 13; the properties above leave 13 only, and the amount is the
  binary64 number nearest to 0.13.
\<close>

theorem cashback_is_binary64_toFixed_witness:
  "js_mul (Fin (5 / 2)) (js_div (Fin 5) (Fin 100)) = Fin (1 / 8) \<and> \<bar>1 / 8 :: rat\<bar> < 10 ^ 21 \<and>
   cashbackAmount (Fin (5 / 2)) (Fin 5) = float_round (13 / 100) \<and>
   cashbackAmount (Fin (5 / 2)) (Fin 5) = Fin (1170935903116329 / 9007199254740992) \<and>
   \<not> isFinite (LSC_CASHBACK_PERCENT
        (load_config test_platform
           \<lparr> env_SHOPIFY_WEBHOOK_SECRET = Some ''shpss_test'', env_ALLOWED_SHOPIFY_DOMAIN = None,
             env_LSC_CASHBACK_PERCENT = Some ''five'' \<rparr>)) \<and>
   cashbackPercent
     (load_config test_platform
        \<lparr> env_SHOPIFY_WEBHOOK_SECRET = Some ''shpss_test'', env_ALLOWED_SHOPIFY_DOMAIN = None,
          env_LSC_CASHBACK_PERCENT = Some ''five'' \<rparr>) = Fin 5 \<and>
   list_all
     (row_calculated
        (load_config test_platform
           \<lparr> env_SHOPIFY_WEBHOOK_SECRET = Some ''shpss_test'', env_ALLOWED_SHOPIFY_DOMAIN = None,
             env_LSC_CASHBACK_PERCENT = Some ''five'' \<rparr>))
     (lsc_cashback_events empty_server) \<and>
   list_all
     (row_calculated
        (load_config test_platform
           \<lparr> env_SHOPIFY_WEBHOOK_SECRET = Some ''shpss_test'', env_ALLOWED_SHOPIFY_DOMAIN = None,
             env_LSC_CASHBACK_PERCENT = Some ''five'' \<rparr>))
     (lsc_cashback_events
        (deliver_all test_platform
           (load_config test_platform
              \<lparr> env_SHOPIFY_WEBHOOK_SECRET = Some ''shpss_test'', env_ALLOWED_SHOPIFY_DOMAIN = None,
                env_LSC_CASHBACK_PERCENT = Some ''five'' \<rparr>)
           [(Api, healthy, signed_post ''luxem.myshopify.com'' ''orders/paid'' order_1001_200)]
           empty_server))"
proof -
  let ?cfg = "load_config test_platform
        \<lparr> env_SHOPIFY_WEBHOOK_SECRET = Some ''shpss_test'', env_ALLOWED_SHOPIFY_DOMAIN = None,
          env_LSC_CASHBACK_PERCENT = Some ''five'' \<rparr>"
  define n where "n = round_half_away (1 / 8 * 100)"
  have m: "js_mul (Fin (5 / 2)) (js_div (Fin 5) (Fin 100)) = Fin (1 / 8) \<and> \<bar>1 / 8 :: rat\<bar> < 10 ^ 21"
    by code_simp
  have f: "\<not> isFinite (LSC_CASHBACK_PERCENT ?cfg)"
    by code_simp
  have v: "float_round (13 / 100) = Fin (1170935903116329 / 9007199254740992)"
    by code_simp
  have e: "list_all (row_calculated ?cfg) (lsc_cashback_events empty_server)"
    by (simp add: empty_server_def)
  note T = cashback_is_binary64_toFixed [of "Fin (5 / 2)" "Fin 5" "1 / 8" ?cfg no_allow_list
      test_platform empty_server
      "[(Api, healthy, signed_post ''luxem.myshopify.com'' ''orders/paid'' order_1001_200)]"]
  from T m have a: "cashbackAmount (Fin (5 / 2)) (Fin 5) = float_round (of_int n / 100)"
    unfolding n_def by blast
  from T m have nearest: "\<bar>of_int n - 1 / 8 * 100\<bar> \<le> \<bar>of_int 13 - 1 / 8 * (100 :: rat)\<bar>"
    unfolding n_def by blast
  from T m have tie: "\<bar>of_int 13 - 1 / 8 * (100 :: rat)\<bar> = \<bar>of_int n - 1 / 8 * 100\<bar> \<longrightarrow> \<bar>13\<bar> \<le> \<bar>n\<bar>"
    unfolding n_def by blast
  from nearest have "\<bar>of_int n - 25 / 2\<bar> \<le> (1 / 2 :: rat)" by simp
  then have "(12 :: rat) \<le> of_int n \<and> of_int n \<le> (13 :: rat)" by linarith
  then have r: "12 \<le> n \<and> n \<le> 13" by simp
  have "n \<noteq> 12"
  proof
    assume "n = 12"
    with tie show False by simp
  qed
  with r have "n = 13" by linarith
  with a have c: "cashbackAmount (Fin (5 / 2)) (Fin 5) = float_round (13 / 100)" by simp
  from T f have p: "cashbackPercent ?cfg = Fin 5" by blast
  from T e have l: "list_all (row_calculated ?cfg)
     (lsc_cashback_events
        (deliver_all test_platform ?cfg
           [(Api, healthy, signed_post ''luxem.myshopify.com'' ''orders/paid'' order_1001_200)]
           empty_server))"
    by blast
  from c v have c': "cashbackAmount (Fin (5 / 2)) (Fin 5) = Fin (1170935903116329 / 9007199254740992)"
    by simp
  show ?thesis
    by (intro conjI conjunct1 [OF m] conjunct2 [OF m] c c' f p e l)
qed

section \<open>Missing secret\<close>

text \<open>
  C8. When the secret is not configured, no request is verified: each handler rejects the
  request and leaves the state as it was. A POST is answered 401 (by
  src/api/shopify-orders-paid.js), 403 (a refused domain, in src/unnamed/part_000) or 500
  (the misconfiguration, in src/unnamed/part_000); any other method is answered 405.
\<close>

theorem missing_secret_fails_closed:
  assumes "SHOPIFY_WEBHOOK_SECRET cfg = []"
  shows "\<exists>r. handler v P cfg d req s = (Inr r, s) \<and>
           (if req_method req = ''POST'' then status r \<in> {401, 403, 500} else status r = 405)"
proof (cases v)
  case Api
  then show ?thesis
    using assms
    by (simp add: handler_def handler_api_def handler_api_try_def verifyShopifyHmac_def Let_def)
next
  case Part000
  then show ?thesis
    using assms by (simp add: handler_def handler_part000_def Let_def)
qed

theorem missing_secret_fails_closed_witness:
  "SHOPIFY_WEBHOOK_SECRET
     (load_config test_platform
        \<lparr> env_SHOPIFY_WEBHOOK_SECRET = None,
          env_ALLOWED_SHOPIFY_DOMAIN = Some ''luxem.myshopify.com'',
          env_LSC_CASHBACK_PERCENT = None \<rparr>) = [] \<and>
   (\<exists>r. handler Part000 test_platform
          (load_config test_platform
             \<lparr> env_SHOPIFY_WEBHOOK_SECRET = None,
               env_ALLOWED_SHOPIFY_DOMAIN = Some ''luxem.myshopify.com'',
               env_LSC_CASHBACK_PERCENT = None \<rparr>)
          healthy (signed_post ''luxem.myshopify.com'' ''orders/paid'' order_1001_200) empty_server
        = (Inr r, empty_server) \<and>
        (if req_method (signed_post ''luxem.myshopify.com'' ''orders/paid'' order_1001_200) = ''POST''
         then status r \<in> {401, 403, 500} else status r = 405))"
proof -
  have h: "SHOPIFY_WEBHOOK_SECRET
     (load_config test_platform
        \<lparr> env_SHOPIFY_WEBHOOK_SECRET = None,
          env_ALLOWED_SHOPIFY_DOMAIN = Some ''luxem.myshopify.com'',
          env_LSC_CASHBACK_PERCENT = None \<rparr>) = []"
    by (simp add: load_config_def)
  show ?thesis
    by (intro conjI h missing_secret_fails_closed [OF h])
qed

section \<open>Storage failures\<close>

lemma api_storage_failure:
  "reaches_persistence Api P cfg d req s \<longrightarrow> storage_fails d s \<longrightarrow>
   (\<exists>s'. handler_api P cfg d req s = (Inr (Response 200 (ErrorJson ''Logged server error'')), s') \<and>
           lsc_cashback_events s' = lsc_cashback_events s \<and>
           console s' = console s @ [LogError ''Webhook error:''])"
  apply (simp add: reaches_persistence_def handler_def handler_api_def)
  apply (simp add: handler_api_try_def Let_def split: sum.split option.split)
  apply (simp add: storage_fails_def sql_insert_def ensureTable_def log_def)
  done


lemma part000_storage_failure:
  "reaches_persistence Part000 P cfg d req s \<longrightarrow> storage_fails d s \<longrightarrow>
   (\<exists>s'. handler_part000 P cfg d req s = (Inr (Response 200 (Text ''OK'')), s') \<and>
           lsc_cashback_events s' = lsc_cashback_events s \<and>
           console s' = console s @ [LogError ''DB insert error:'', LogInfo ''[LSC] orders/paid''])"
  apply (simp add: reaches_persistence_def handler_def)
  apply (simp add: handler_part000_def Let_def timingSafeEqualStr_eq split: option.split)
  apply (simp add: storage_fails_def record_part000_def sql_insert_def ensureTable_def log_def)
  done

text \<open>
  C9. For every request that reaches the persistence step, when a statement sent to the
  database fails, the handler does not throw: it writes an error line to the console,
  leaves the table as it was and answers 200.
\<close>

theorem storage_failure_acknowledged:
  assumes "reaches_persistence v P cfg d req s" and "storage_fails d s"
  shows "\<exists>r s' m rest. handler v P cfg d req s = (Inr r, s') \<and> status r = 200 \<and>
           lsc_cashback_events s' = lsc_cashback_events s \<and>
           console s' = console s @ LogError m # rest"
proof (cases v)
  case Api
  with api_storage_failure [of P cfg d req s] assms
  obtain s' where "handler_api P cfg d req s = (Inr (Response 200 (ErrorJson ''Logged server error'')), s')"
    and "lsc_cashback_events s' = lsc_cashback_events s"
    and "console s' = console s @ [LogError ''Webhook error:'']"
    by blast
  with Api show ?thesis by (simp add: handler_def)
next
  case Part000
  with part000_storage_failure [of P cfg d req s] assms
  obtain s' where "handler_part000 P cfg d req s = (Inr (Response 200 (Text ''OK'')), s')"
    and "lsc_cashback_events s' = lsc_cashback_events s"
    and "console s' = console s @ [LogError ''DB insert error:'', LogInfo ''[LSC] orders/paid'']"
    by blast
  with Part000 show ?thesis by (simp add: handler_def)
qed

theorem storage_failure_acknowledged_witness:
  "reaches_persistence Api test_platform test_config \<lparr> fault = InsertFails, now = 7 \<rparr>
     (signed_post ''luxem.myshopify.com'' ''orders/paid'' order_1001_200) empty_server \<and>
   storage_fails \<lparr> fault = InsertFails, now = 7 \<rparr> empty_server \<and>
   (\<exists>r s' m rest.
      handler Api test_platform test_config \<lparr> fault = InsertFails, now = 7 \<rparr>
        (signed_post ''luxem.myshopify.com'' ''orders/paid'' order_1001_200) empty_server = (Inr r, s') \<and>
      status r = 200 \<and>
      lsc_cashback_events s' = lsc_cashback_events empty_server \<and>
      console s' = console empty_server @ LogError m # rest)"
proof -
  have h1: "reaches_persistence Api test_platform test_config \<lparr> fault = InsertFails, now = 7 \<rparr>
     (signed_post ''luxem.myshopify.com'' ''orders/paid'' order_1001_200) empty_server"
    by code_simp
  have h2: "storage_fails \<lparr> fault = InsertFails, now = 7 \<rparr> empty_server"
    by (simp add: storage_fails_def)
  show ?thesis
    by (intro conjI h1 h2 storage_failure_acknowledged [OF h1 h2])
qed

section \<open>An unset allow-list\<close>

lemma load_config_allowed_unset:
  "env_ALLOWED_SHOPIFY_DOMAIN e = None \<or> env_ALLOWED_SHOPIFY_DOMAIN e = Some [] \<Longrightarrow>
   ALLOWED_SHOPIFY_DOMAIN (load_config P e) = []"
  by (auto simp: load_config_def toLowerCase_def)

lemma header_or_empty_other:
  "name \<noteq> name' \<Longrightarrow>
   header_or_empty (req\<lparr>headers := (headers req)(name' := x)\<rparr>) name = header_or_empty req name"
  by (simp add: header_or_empty_def)

lemma insert_do_update_shop:
  "\<exists>r \<in> set (insert_do_update new rows). order_id r = order_id new \<and> shop_domain r = shop_domain new"
proof (cases "order_id new \<in> set (map order_id rows)")
  case True
  then obtain x where x: "x \<in> set rows" "order_id x = order_id new"
    by auto
  let ?g = "\<lambda>r. if order_id r = order_id new then new\<lparr>created_at := created_at r\<rparr> else r"
  have eq: "insert_do_update new rows = map ?g rows"
    using True by (simp add: insert_do_update_def)
  have "?g x \<in> set (insert_do_update new rows)"
    using x(1) by (simp only: eq set_map) (rule imageI)
  moreover have "order_id (?g x) = order_id new \<and> shop_domain (?g x) = shop_domain new"
    using x(2) by simp
  ultimately show ?thesis by blast
next
  case False
  then show ?thesis
    by (simp add: insert_do_update_def)
qed

lemma handler_api_try_own_domain:
  assumes "ALLOWED_SHOPIFY_DOMAIN cfg = []"
  shows "handler_api_try P cfg d req s =
         handler_api_try P
           (cfg\<lparr>ALLOWED_SHOPIFY_DOMAIN := toLowerCase (header_or_empty req ''x-shopify-shop-domain'')\<rparr>)
           d req s"
  using assms
  by (simp add: handler_api_try_def Let_def verifyShopifyHmac_def cashbackPercent_def
      split: sum.split option.split)

lemma handler_api_recorded_from:
  assumes "req_method req = ''POST''"
    and "ALLOWED_SHOPIFY_DOMAIN cfg = []"
    and "SHOPIFY_WEBHOOK_SECRET cfg \<noteq> []"
    and "headers req ''x-shopify-hmac-sha256'' =
         Some (hmac_sha256_base64 P (SHOPIFY_WEBHOOK_SECRET cfg) (req_body req))"
    and "headers req ''x-shopify-topic'' = Some t" and "str_includes t ''order''"
    and "JSON_parse P (req_body req) = Some payload"
    and "orderId_api P payload = Some orderId"
    and "totalPaid_api P payload = Some totalPaid"
    and "fault d = NoFault"
  shows "fst (handler_api P cfg d req s) =
           Inr (Response 200 (SavedJson orderId (cashbackAmount totalPaid (cashbackPercent cfg)))) \<and>
         (\<exists>r \<in> set (lsc_cashback_events (snd (handler_api P cfg d req s))).
            order_id r = orderId \<and>
            shop_domain r = toLowerCase (header_or_empty req ''x-shopify-shop-domain''))"
proof -
  have v: "verifyShopifyHmac P cfg (req_body req) (headers req ''x-shopify-hmac-sha256'') = Inr True"
    using assms(3,4) by (simp add: verifyShopifyHmac_def timingSafeEqual_def)
  have t: "t \<noteq> []"
    using assms(6) by (rule str_includes_nonempty)
  have e: "ensureTable d s = Inr (s\<lparr>tableReady := True\<rparr>)"
    using assms(10) by (cases "tableReady s") (auto simp: ensureTable_def)
  let ?new = "\<lparr> order_id = orderId, created_at = now d,
      shop_domain = toLowerCase (header_or_empty req ''x-shopify-shop-domain''),
      customer_email = customerEmail_api payload, currency = currency_api payload,
      total_paid = totalPaid, cashback_percent = cashbackPercent cfg,
      cashback_amount = cashbackAmount totalPaid (cashbackPercent cfg), raw = payload \<rparr>"
  have "handler_api_try P cfg d req s =
          (Inr (Response 200 (SavedJson orderId (cashbackAmount totalPaid (cashbackPercent cfg)))),
           log (LogInfo ''Cashback saved:'')
             (s\<lparr>tableReady := True, lsc_cashback_events := insert_do_update ?new (lsc_cashback_events s)\<rparr>))"
    using assms(2,5,6,7,8,9,10) v t e
    by (auto simp: handler_api_try_def Let_def sql_insert_def)
  then have h: "handler_api P cfg d req s =
          (Inr (Response 200 (SavedJson orderId (cashbackAmount totalPaid (cashbackPercent cfg)))),
           log (LogInfo ''Cashback saved:'')
             (s\<lparr>tableReady := True, lsc_cashback_events := insert_do_update ?new (lsc_cashback_events s)\<rparr>))"
    using assms(1) by (simp add: handler_api_def)
  have "\<exists>r \<in> set (insert_do_update ?new (lsc_cashback_events s)). order_id r = orderId \<and>
      shop_domain r = toLowerCase (header_or_empty req ''x-shopify-shop-domain'')"
    using insert_do_update_shop [of ?new "lsc_cashback_events s"] by simp
  with h show ?thesis by simp
qed

text \<open>
  C10. When \<open>ALLOWED_SHOPIFY_DOMAIN\<close> is unset or empty, the configured domain is the
  empty string. The handler of src/api/shopify-orders-paid.js then skips the domain check,
  and a request from any shop domain passes: the check rejects no request; every request
  is handled exactly as under an allow-list that names the request's own shop domain; and
  a validly signed POST with an accepted topic and a body that parses, from whatever shop
  domain, is answered 200 \<open>{ok: true, ...}\<close> and leaves a row with its order identifier and
  that shop domain when the database answers. Its response does not depend on the
  shop-domain header and is never \<open>Unauthorized shop domain\<close>. The handler of
  src/unnamed/part_000 rejects every request: 403 (\<open>Forbidden (domain)\<close>) for a POST, 405
  for any other method, the state unchanged.
\<close>

theorem unset_allow_list_open_or_closed:
  assumes "env_ALLOWED_SHOPIFY_DOMAIN e = None \<or> env_ALLOWED_SHOPIFY_DOMAIN e = Some []"
  shows "\<not> domain_rejected Api (load_config P e) req \<and>
         handler_api P (load_config P e) d req s =
           handler_api P
             ((load_config P e)
                \<lparr>ALLOWED_SHOPIFY_DOMAIN := toLowerCase (header_or_empty req ''x-shopify-shop-domain'')\<rparr>)
             d req s \<and>
         (req_method req = ''POST'' \<and> SHOPIFY_WEBHOOK_SECRET (load_config P e) \<noteq> [] \<and>
          headers req ''x-shopify-hmac-sha256'' =
            Some (hmac_sha256_base64 P (SHOPIFY_WEBHOOK_SECRET (load_config P e)) (req_body req)) \<and>
          headers req ''x-shopify-topic'' = Some t \<and> str_includes t ''order'' \<and>
          JSON_parse P (req_body req) = Some payload \<and>
          orderId_api P payload = Some orderId \<and> totalPaid_api P payload = Some totalPaid \<and>
          fault d = NoFault \<longrightarrow>
            fst (handler_api P (load_config P e) d req s) =
              Inr (Response 200
                (SavedJson orderId (cashbackAmount totalPaid (cashbackPercent (load_config P e))))) \<and>
            (\<exists>r \<in> set (lsc_cashback_events (snd (handler_api P (load_config P e) d req s))).
               order_id r = orderId \<and>
               shop_domain r = toLowerCase (header_or_empty req ''x-shopify-shop-domain''))) \<and>
         fst (handler_api P (load_config P e) d
                (req\<lparr>headers := (headers req)(''x-shopify-shop-domain'' := x)\<rparr>) s)
           = fst (handler_api P (load_config P e) d req s) \<and>
         fst (handler_api P (load_config P e) d req s)
           \<noteq> Inr (Response 401 (ErrorJson ''Unauthorized shop domain'')) \<and>
         handler_part000 P (load_config P e) d req s
           = (Inr (if req_method req = ''POST'' then Response 403 (Text ''Forbidden (domain)'')
                   else Response 405 (Text ''Method Not Allowed'')), s)"
proof -
  have a: "ALLOWED_SHOPIFY_DOMAIN (load_config P e) = []"
    using assms by (rule load_config_allowed_unset)
  have g: "\<not> domain_rejected Api (load_config P e) req"
    using a by (simp add: domain_rejected_def)
  have o: "handler_api P (load_config P e) d req s =
           handler_api P
             ((load_config P e)
                \<lparr>ALLOWED_SHOPIFY_DOMAIN := toLowerCase (header_or_empty req ''x-shopify-shop-domain'')\<rparr>)
             d req s"
    using handler_api_try_own_domain [OF a, of P d req s] by (simp add: handler_api_def)
  have r: "req_method req = ''POST'' \<and> SHOPIFY_WEBHOOK_SECRET (load_config P e) \<noteq> [] \<and>
          headers req ''x-shopify-hmac-sha256'' =
            Some (hmac_sha256_base64 P (SHOPIFY_WEBHOOK_SECRET (load_config P e)) (req_body req)) \<and>
          headers req ''x-shopify-topic'' = Some t \<and> str_includes t ''order'' \<and>
          JSON_parse P (req_body req) = Some payload \<and>
          orderId_api P payload = Some orderId \<and> totalPaid_api P payload = Some totalPaid \<and>
          fault d = NoFault \<longrightarrow>
            fst (handler_api P (load_config P e) d req s) =
              Inr (Response 200
                (SavedJson orderId (cashbackAmount totalPaid (cashbackPercent (load_config P e))))) \<and>
            (\<exists>r \<in> set (lsc_cashback_events (snd (handler_api P (load_config P e) d req s))).
               order_id r = orderId \<and>
               shop_domain r = toLowerCase (header_or_empty req ''x-shopify-shop-domain''))"
    using handler_api_recorded_from [of req "load_config P e" P t payload orderId totalPaid d s] a
    by blast
  have 1: "fst (handler_api P (load_config P e) d
                (req\<lparr>headers := (headers req)(''x-shopify-shop-domain'' := x)\<rparr>) s)
           = fst (handler_api P (load_config P e) d req s)"
    using a
    by (auto simp: handler_api_def handler_api_try_def Let_def sql_insert_def
        split: sum.splits option.splits prod.splits if_splits)
  have 2: "fst (handler_api P (load_config P e) d req s)
           \<noteq> Inr (Response 401 (ErrorJson ''Unauthorized shop domain''))"
    using a
    by (auto simp: handler_api_def handler_api_try_def Let_def
        split: sum.splits option.splits prod.splits if_splits)
  have 3: "handler_part000 P (load_config P e) d req s
           = (Inr (if req_method req = ''POST'' then Response 403 (Text ''Forbidden (domain)'')
                   else Response 405 (Text ''Method Not Allowed'')), s)"
    using a by (simp add: handler_part000_def Let_def)
  from g o r 1 2 3 show ?thesis by blast
qed

text \<open>
  With the allow-list unset, a signed delivery of order 1001 from \<open>any.example.com\<close> is
  recorded by the handler of src/api/shopify-orders-paid.js, and answered 403 by the
  handler of src/unnamed/part_000.
\<close>

theorem unset_allow_list_open_or_closed_witness:
  "(env_ALLOWED_SHOPIFY_DOMAIN no_allow_list = None \<or>
    env_ALLOWED_SHOPIFY_DOMAIN no_allow_list = Some []) \<and>
   fst (handler_api test_platform (load_config test_platform no_allow_list) healthy
          (signed_post ''any.example.com'' ''orders/paid'' order_1001_200) empty_server) =
     Inr (Response 200
       (SavedJson ''1001''
          (cashbackAmount (Fin 200) (cashbackPercent (load_config test_platform no_allow_list))))) \<and>
   map (\<lambda>r. (order_id r, shop_domain r))
     (lsc_cashback_events
        (snd (handler_api test_platform (load_config test_platform no_allow_list) healthy
                (signed_post ''any.example.com'' ''orders/paid'' order_1001_200) empty_server))) =
     [(''1001'', ''any.example.com'')] \<and>
   handler_part000 test_platform (load_config test_platform no_allow_list) healthy
     (signed_post ''any.example.com'' ''orders/paid'' order_1001_200) empty_server =
     (Inr (Response 403 (Text ''Forbidden (domain)'')), empty_server)"
proof -
  let ?req = "signed_post ''any.example.com'' ''orders/paid'' order_1001_200"
  let ?cfg = "load_config test_platform no_allow_list"
  have h: "env_ALLOWED_SHOPIFY_DOMAIN no_allow_list = None \<or>
      env_ALLOWED_SHOPIFY_DOMAIN no_allow_list = Some []"
    by (simp add: no_allow_list_def)
  have c: "SHOPIFY_WEBHOOK_SECRET ?cfg = SHOPIFY_WEBHOOK_SECRET test_config"
    by (simp add: load_config_def no_allow_list_def test_config_def)
  have p: "req_method ?req = ''POST'' \<and> SHOPIFY_WEBHOOK_SECRET ?cfg \<noteq> [] \<and>
      headers ?req ''x-shopify-hmac-sha256'' =
        Some (hmac_sha256_base64 test_platform (SHOPIFY_WEBHOOK_SECRET ?cfg) (req_body ?req)) \<and>
      headers ?req ''x-shopify-topic'' = Some ''orders/paid'' \<and>
      str_includes ''orders/paid'' ''order'' \<and>
      JSON_parse test_platform (req_body ?req) =
        Some (JObj [(''id'', JStr ''1001''), (''total_price'', JStr ''200.00''), (''currency'', JStr ''EUR'')]) \<and>
      orderId_api test_platform
        (JObj [(''id'', JStr ''1001''), (''total_price'', JStr ''200.00''), (''currency'', JStr ''EUR'')]) =
        Some ''1001'' \<and>
      totalPaid_api test_platform
        (JObj [(''id'', JStr ''1001''), (''total_price'', JStr ''200.00''), (''currency'', JStr ''EUR'')]) =
        Some (Fin 200) \<and>
      fault healthy = NoFault"
    unfolding c
    apply (intro conjI)
            apply (rule signed_post_method)
           apply (rule test_config_fields(1))
          apply (rule signed_post_hmac)
         apply (rule signed_post_topic)
        apply code_simp
       apply (simp add: signed_post_body parse_1001_200)
      apply code_simp
     apply code_simp
    apply (simp add: healthy_def)
    done
  have rows: "map (\<lambda>r. (order_id r, shop_domain r))
     (lsc_cashback_events (snd (handler_api test_platform ?cfg healthy ?req empty_server))) =
     [(''1001'', ''any.example.com'')]"
    by code_simp
  have m: "req_method ?req = ''POST''"
    by (rule signed_post_method)
  note T = unset_allow_list_open_or_closed [OF h, of test_platform ?req healthy empty_server
      "''orders/paid''"
      "JObj [(''id'', JStr ''1001''), (''total_price'', JStr ''200.00''), (''currency'', JStr ''EUR'')]"
      "''1001''" "Fin 200"]
  from T p have f: "fst (handler_api test_platform ?cfg healthy ?req empty_server) =
      Inr (Response 200 (SavedJson ''1001'' (cashbackAmount (Fin 200) (cashbackPercent ?cfg))))"
    by blast
  from T have "handler_part000 test_platform ?cfg healthy ?req empty_server =
      (Inr (if req_method ?req = ''POST'' then Response 403 (Text ''Forbidden (domain)'')
            else Response 405 (Text ''Method Not Allowed'')), empty_server)"
    by blast
  then have q: "handler_part000 test_platform ?cfg healthy ?req empty_server =
      (Inr (Response 403 (Text ''Forbidden (domain)'')), empty_server)"
    by (simp add: m)
  show ?thesis
    by (intro conjI h f rows q)
qed

section \<open>The scenarios of the specification\<close>

text \<open>
  The body \<open>{"id":"1001","total_price":"200.00","currency":"EUR"}\<close> at 5 percent is
  recorded with amount 200, percent 5 and cashback 10. Delivered again with
  \<open>total_price\<close> 250.00, the one row of order 1001 is updated to 250 and 12.5 by
  src/api/shopify-orders-paid.js, with its creation time kept, and left as it was by
  src/unnamed/part_000.
\<close>

lemma scenario_first_delivery:
  "handler_part000 test_platform test_config healthy
     (signed_post ''luxem.myshopify.com'' ''orders/paid'' order_1001_200) empty_server =
   (Inr (Response 200 (Text ''OK'')),
    \<lparr> tableReady = True,
      lsc_cashback_events =
        [\<lparr> order_id = ''1001'', created_at = 0, shop_domain = ''luxem.myshopify.com'',
           customer_email = JNull, currency = JStr ''EUR'', total_paid = Fin 200,
           cashback_percent = Fin 5, cashback_amount = Fin 10,
           raw = JObj [(''id'', JStr ''1001''), (''total_price'', JStr ''200.00''),
                       (''currency'', JStr ''EUR'')] \<rparr>],
      console = [LogInfo ''[LSC] orders/paid''] \<rparr>)"
  by code_simp

lemma scenario_replay_api:
  "map (\<lambda>r. (order_id r, created_at r, total_paid r, cashback_amount r))
     (lsc_cashback_events
        (deliver_all test_platform test_config
           [(Api, \<lparr> fault = NoFault, now = 1 \<rparr>,
             signed_post ''luxem.myshopify.com'' ''orders/paid'' order_1001_200),
            (Api, \<lparr> fault = NoFault, now = 2 \<rparr>,
             signed_post ''luxem.myshopify.com'' ''orders/paid'' order_1001_250)]
           empty_server)) =
   [(''1001'', 1, Fin 250, Fin (25 / 2))]"
  by code_simp

lemma scenario_replay_part000:
  "map (\<lambda>r. (order_id r, created_at r, total_paid r, cashback_amount r))
     (lsc_cashback_events
        (deliver_all test_platform test_config
           [(Part000, \<lparr> fault = NoFault, now = 1 \<rparr>,
             signed_post ''luxem.myshopify.com'' ''orders/paid'' order_1001_200),
            (Part000, \<lparr> fault = NoFault, now = 2 \<rparr>,
             signed_post ''luxem.myshopify.com'' ''orders/paid'' order_1001_250)]
           empty_server)) =
   [(''1001'', 1, Fin 200, Fin 10)]"
  by code_simp

end
